theory Spec2Isabelle
  imports Complex_Main "HOL-Library.List_Lexorder" "HOL-Library.Char_ord"
begin

section \<open>SmartBite: data model\<close>

text \<open>
  The application is a set of client-side service functions (\<^verbatim>\<open>supabase-api.ts\<close>) and
  React state containers (\<^verbatim>\<open>OrderContext.tsx\<close>, the restaurant and the menu container)
  over a hosted relational store (\<^verbatim>\<open>create_initial_schema.sql\<close>).

  Conventions of the embedding:
  \<^item> identifiers (uuids) and text columns are \<open>string\<close>; a nullable column or an optional
    TypeScript field is an \<open>option\<close>;
  \<^item> an SQL \<^verbatim>\<open>numeric\<close>, and a JavaScript \<^verbatim>\<open>number\<close> that the code only reads, compares with
    zero and stores (the amounts of forms and orders), is a rational (\<open>rat\<close>), with \<^verbatim>\<open>NaN\<close>
    as \<open>None\<close> of \<open>rat option\<close>; where the code computes with numbers (the rating
    average), they are IEEE 754 doubles with their rounding, infinities and \<^verbatim>\<open>NaN\<close>;
  \<^item> a timestamp (\<^verbatim>\<open>now()\<close>, \<^verbatim>\<open>new Date().toISOString()\<close>) is a \<open>nat\<close>, passed in by the
    caller of each function that reads the clock;
  \<^item> a thrown \<^verbatim>\<open>Error\<close> is \<open>Inl\<close> of its message in a result \<open>string + 'a\<close>;
  \<^item> React state is a record that each container function takes and returns.
\<close>

datatype role = Customer | Owner | Agent | Admin | Manager | Driver

text \<open>\<^verbatim>\<open>interface User\<close> of supabase-api.ts.\<close>

record user =
  u_id :: string
  u_name :: string
  u_email :: string
  u_role :: role
  u_phone :: "string option"
  u_town :: "string option"

text \<open>The status domain of \<^verbatim>\<open>Order['status']\<close> and of the \<^verbatim>\<open>CHECK\<close> on \<^verbatim>\<open>orders.status\<close>.\<close>

datatype order_status =
  Pending | Confirmed | Preparing | Ready | Delivering | Delivered | Cancelled

text \<open>\<^verbatim>\<open>interface OrderItem\<close> of OrderContext.tsx.\<close>

record order_item =
  i_id :: string
  i_menu_item_id :: string
  i_quantity :: rat
  i_price :: rat
  i_name :: string
  i_image :: "string option"

text \<open>
  A row of table \<^verbatim>\<open>orders\<close>, which is also what the order container caches
  (\<^verbatim>\<open>setOrders(orderData as any)\<close>). The record is extensible: a fetched row that
  embeds its restaurant, or any object with further fields, is an \<open>'a order_scheme\<close>.
\<close>

record order =
  o_id :: string
  o_customer_id :: "string option"
  o_restaurant_id :: "string option"
  o_driver_id :: "string option"
  o_status :: order_status
  o_items :: "order_item list"
  o_subtotal :: rat
  o_delivery_fee :: rat
  o_total :: rat
  o_delivery_address :: string
  o_customer_phone :: string
  o_notes :: "string option"
  o_created_at :: nat
  o_updated_at :: nat

text \<open>The embedded \<^verbatim>\<open>restaurant:restaurants(name, phone, address)\<close> of a fetched order.\<close>

record order_joined = order +
  o_restaurant :: "(string \<times> string \<times> string) option"

text \<open>A row of table \<^verbatim>\<open>users\<close>.\<close>

record user_row =
  ur_id :: string
  ur_email :: string
  ur_password_hash :: string
  ur_name :: string
  ur_phone :: "string option"
  ur_town :: "string option"
  ur_role :: role

text \<open>
  A row of table \<^verbatim>\<open>restaurants\<close> (\<^verbatim>\<open>interface Restaurant\<close>). Column \<^verbatim>\<open>rating\<close> is
  \<^verbatim>\<open>numeric DEFAULT 0\<close> without \<^verbatim>\<open>NOT NULL\<close>.
\<close>

record restaurant =
  r_id :: string
  r_user_id :: "string option"
  r_name :: string
  r_description :: "string option"
  r_image :: "string option"
  r_town :: string
  r_address :: string
  r_phone :: string
  r_rating :: "rat option"
  r_delivery_time :: string
  r_delivery_fee :: rat
  r_min_order :: rat
  r_categories :: "string list"
  r_is_active :: bool
  r_created_at :: nat
  r_updated_at :: nat

text \<open>A row of table \<^verbatim>\<open>menu_items\<close> (\<^verbatim>\<open>interface MenuItem\<close>).\<close>

record menu_item =
  m_id :: string
  m_restaurant_id :: "string option"
  m_name :: string
  m_description :: "string option"
  m_category :: string
  m_price :: rat
  m_image :: "string option"
  m_available :: bool
  m_created_at :: nat
  m_updated_at :: nat

text \<open>A row of table \<^verbatim>\<open>reviews\<close>.\<close>

record review =
  rv_id :: string
  rv_restaurant_id :: "string option"
  rv_customer_id :: "string option"
  rv_order_id :: "string option"
  rv_rating :: int
  rv_comment :: "string option"
  rv_created_at :: nat

subsection \<open>The hosted store\<close>

text \<open>
  The store is the external collaborator the service functions talk to. Its state is the
  five tables and the list of requests it has received (oldest first). \<open>refuse\<close> is its
  answer to a request that it does not carry out (a policy denial, a constraint violation
  or a transport failure, which the client cannot tell apart): \<open>Some e\<close> is the
  \<^verbatim>\<open>error\<close> of the response, \<open>None\<close> lets the request through to the tables.
\<close>

datatype verb = Select | Insert | Update | Delete

type_synonym request = "verb \<times> string"

record remote =
  t_users :: "user_row list"
  t_restaurants :: "restaurant list"
  t_menu_items :: "menu_item list"
  t_orders :: "order list"
  t_reviews :: "review list"
  requests :: "request list"
  refuse :: "request \<Rightarrow> string option"

text \<open>Sending a request: the store records it; the caller reads \<open>refuse\<close> for the answer.\<close>

definition send :: "request \<Rightarrow> remote \<Rightarrow> remote" where
  "send q rm = rm\<lparr>requests := requests rm @ [q]\<rparr>"

section \<open>JavaScript values and built-ins\<close>

text \<open>
  The values a form field of type \<^verbatim>\<open>any\<close> holds: \<^verbatim>\<open>undefined\<close>, \<^verbatim>\<open>null\<close>, a boolean, a
  number, \<^verbatim>\<open>NaN\<close>, a string, or an array of strings.
\<close>

datatype jsval =
  JUndefined | JNull | JBool bool | JNum rat | JNaN | JStr string | JStrs "string list"

text \<open>\<^verbatim>\<open>Array.prototype.join\<close>: the elements with the separator between them.\<close>

fun join :: "string \<Rightarrow> string list \<Rightarrow> string" where
  "join sep [] = []"
| "join sep [x] = x"
| "join sep (x # y # ys) = x @ sep @ join sep (y # ys)"

text \<open>
  \<^verbatim>\<open>parseFloat(v)\<close> and \<^verbatim>\<open>Number(v)\<close>. How a string is read as a number is the
  language's business, so the two string readers are parameters (\<open>None\<close> is \<^verbatim>\<open>NaN\<close>).
  \<^verbatim>\<open>parseFloat\<close> prints its argument first. A number reads back as itself; \<^verbatim>\<open>undefined\<close> and \<^verbatim>\<open>null\<close> print as
  words that \<^verbatim>\<open>parseFloat\<close> cannot read, as a boolean does, while \<^verbatim>\<open>Number\<close> of
  \<^verbatim>\<open>null\<close>, \<^verbatim>\<open>false\<close> and \<^verbatim>\<open>true\<close> is 0, 0 and 1; an array prints as its elements joined
  by commas.
\<close>

definition parseFloat :: "(string \<Rightarrow> rat option) \<Rightarrow> jsval \<Rightarrow> rat option" where
  "parseFloat pf v =
     (case v of
        JUndefined \<Rightarrow> None
      | JNull \<Rightarrow> None
      | JBool b \<Rightarrow> None
      | JNum n \<Rightarrow> Some n
      | JNaN \<Rightarrow> None
      | JStr s \<Rightarrow> pf s
      | JStrs xs \<Rightarrow> pf (join '','' xs))"

definition Number :: "(string \<Rightarrow> rat option) \<Rightarrow> jsval \<Rightarrow> rat option" where
  "Number ns v =
     (case v of
        JUndefined \<Rightarrow> None
      | JNull \<Rightarrow> Some 0
      | JBool b \<Rightarrow> Some (if b then 1 else 0)
      | JNum n \<Rightarrow> Some n
      | JNaN \<Rightarrow> None
      | JStr s \<Rightarrow> ns s
      | JStrs xs \<Rightarrow> ns (join '','' xs))"

text \<open>\<^verbatim>\<open>!v\<close>: the falsy values are \<^verbatim>\<open>undefined\<close>, \<^verbatim>\<open>null\<close>, 0, \<^verbatim>\<open>NaN\<close> and the empty string.\<close>

definition falsy :: "jsval \<Rightarrow> bool" where
  "falsy v =
     (case v of
        JUndefined \<Rightarrow> True
      | JNull \<Rightarrow> True
      | JBool b \<Rightarrow> \<not> b
      | JNum n \<Rightarrow> n = 0
      | JNaN \<Rightarrow> True
      | JStr s \<Rightarrow> s = []
      | JStrs xs \<Rightarrow> False)"

text \<open>The same test on an optional string (\<open>None\<close> is \<^verbatim>\<open>undefined\<close>).\<close>

definition falsy_str :: "string option \<Rightarrow> bool" where
  "falsy_str v = (case v of None \<Rightarrow> True | Some s \<Rightarrow> s = [])"

text \<open>
  \<^verbatim>\<open>String.prototype.trim\<close> removes white space and line terminators at both ends. Of
  these the code units below 256 are tab, line feed, vertical tab, form feed, carriage
  return, space and the no-break space.
\<close>

definition is_space :: "char \<Rightarrow> bool" where
  "is_space c = (of_char c \<in> {9, 10, 11, 12, 13, 32, 160 :: nat})"

definition trim :: "string \<Rightarrow> string" where
  "trim s = rev (dropWhile is_space (rev (dropWhile is_space s)))"

section \<open>The order service (supabase-api.ts)\<close>

text \<open>
  The object \<^verbatim>\<open>updates\<close> of \<^verbatim>\<open>orderService.updateOrderStatus\<close>: always a status, and a
  \<^verbatim>\<open>driver_id\<close> only when the key was added.
\<close>

record order_updates =
  up_status :: order_status
  up_driver_id :: "string option"

text \<open>
  \<^verbatim>\<open>UPDATE orders SET ... WHERE id = orderId\<close> on one row: the columns named in \<open>updates\<close>
  change, and trigger \<^verbatim>\<open>update_orders_updated_at\<close> stamps the row.
\<close>

definition update_order_row :: "nat \<Rightarrow> order_updates \<Rightarrow> string \<Rightarrow> order \<Rightarrow> order" where
  "update_order_row srv_now updates orderId row =
     (if o_id row = orderId
      then row\<lparr>o_status := up_status updates,
                o_driver_id := (case up_driver_id updates of
                                 Some d \<Rightarrow> Some d
                               | None \<Rightarrow> o_driver_id row),
                o_updated_at := srv_now\<rparr>
      else row)"

text \<open>
  \<^verbatim>\<open>orderService.updateOrderStatus(orderId, status, driverId?)\<close>. \<^verbatim>\<open>if (driverId)\<close> adds the
  key for a non-empty string only. The current status of the row is never read.
\<close>

definition orderService_updateOrderStatus ::
  "nat \<Rightarrow> string \<Rightarrow> order_status \<Rightarrow> string option \<Rightarrow> remote \<Rightarrow> (string + unit) \<times> remote" where
  "orderService_updateOrderStatus srv_now orderId status driverId rm =
     (let updates = \<lparr>up_status = status,
                      up_driver_id = (if falsy_str driverId then None else driverId)\<rparr>;
          rm1 = send (Update, ''orders'') rm
      in case refuse rm (Update, ''orders'') of
           Some e \<Rightarrow> (Inl e, rm1)
         | None \<Rightarrow>
             (Inr (), rm1\<lparr>t_orders := map (update_order_row srv_now updates orderId) (t_orders rm1)\<rparr>))"

text \<open>
  The object \<^verbatim>\<open>orderData\<close> that the order container receives from the checkout form and
  the object it hands to \<^verbatim>\<open>orderService.createOrder\<close>: text fields are strings or absent,
  \<open>items\<close> is an array of order items or absent, amounts are whatever the form holds.
\<close>

record order_data =
  od_restaurant_id :: "string option"
  od_items :: "order_item list option"
  od_subtotal :: jsval
  od_delivery_fee :: jsval
  od_total :: jsval
  od_delivery_address :: "string option"
  od_customer_phone :: "string option"
  od_notes :: "string option"

record order_service_data = order_data +
  od_customer_id :: string

text \<open>
  The row \<^verbatim>\<open>orderService.createOrder\<close> sends. A column is \<open>None\<close> when the JSON body carries
  \<^verbatim>\<open>null\<close> for it or leaves it out (\<^verbatim>\<open>undefined\<close> is dropped and \<^verbatim>\<open>NaN\<close> is written as
  \<^verbatim>\<open>null\<close>).
\<close>

record order_insert =
  oi_customer_id :: "string option"
  oi_restaurant_id :: "string option"
  oi_status :: order_status
  oi_items :: "order_item list option"
  oi_subtotal :: "rat option"
  oi_delivery_fee :: "rat option"
  oi_total :: "rat option"
  oi_delivery_address :: "string option"
  oi_customer_phone :: "string option"
  oi_notes :: "string option"

text \<open>
  \<^verbatim>\<open>INSERT INTO orders\<close>: the \<^verbatim>\<open>NOT NULL\<close> columns must be present; the store supplies
  \<open>id\<close> (\<^verbatim>\<open>gen_random_uuid()\<close>), both timestamps (\<^verbatim>\<open>now()\<close>) and a null driver.
\<close>

definition orders_insert_row :: "string \<Rightarrow> nat \<Rightarrow> order_insert \<Rightarrow> order option" where
  "orders_insert_row new_id srv_now row =
     (case (oi_items row, oi_subtotal row, oi_delivery_fee row, oi_total row,
            oi_delivery_address row, oi_customer_phone row) of
        (Some its, Some st, Some fee, Some tot, Some addr, Some phone) \<Rightarrow>
          Some \<lparr>o_id = new_id, o_customer_id = oi_customer_id row,
                o_restaurant_id = oi_restaurant_id row, o_driver_id = None,
                o_status = oi_status row, o_items = its, o_subtotal = st,
                o_delivery_fee = fee, o_total = tot, o_delivery_address = addr,
                o_customer_phone = phone, o_notes = oi_notes row,
                o_created_at = srv_now, o_updated_at = srv_now\<rparr>
      | _ \<Rightarrow> None)"

text \<open>
  \<^verbatim>\<open>orderService.createOrder(orderData)\<close>: builds the row with status \<^verbatim>\<open>'pending'\<close>, the
  amounts read by \<^verbatim>\<open>parseFloat\<close> and \<^verbatim>\<open>notes || null\<close>, inserts it and returns the stored
  row (\<^verbatim>\<open>.select().single()\<close>).
\<close>

definition createOrder_row :: "(string \<Rightarrow> rat option) \<Rightarrow> order_service_data \<Rightarrow> order_insert" where
  "createOrder_row pf orderData =
     \<lparr>oi_customer_id = Some (od_customer_id orderData),
      oi_restaurant_id = od_restaurant_id orderData,
      oi_status = Pending,
      oi_items = od_items orderData,
      oi_subtotal = parseFloat pf (od_subtotal orderData),
      oi_delivery_fee = parseFloat pf (od_delivery_fee orderData),
      oi_total = parseFloat pf (od_total orderData),
      oi_delivery_address = od_delivery_address orderData,
      oi_customer_phone = od_customer_phone orderData,
      oi_notes = (if falsy_str (od_notes orderData) then None else od_notes orderData)\<rparr>"

definition orderService_createOrder ::
  "(string \<Rightarrow> rat option) \<Rightarrow> string \<Rightarrow> nat \<Rightarrow> order_service_data \<Rightarrow> remote
     \<Rightarrow> (string + order) \<times> remote" where
  "orderService_createOrder pf new_id srv_now orderData rm =
     (let row = createOrder_row pf orderData;
          rm1 = send (Insert, ''orders'') rm
      in case refuse rm (Insert, ''orders'') of
           Some e \<Rightarrow> (Inl e, rm1)
         | None \<Rightarrow>
             (case orders_insert_row new_id srv_now row of
                None \<Rightarrow> (Inl ''null value violates not-null constraint'', rm1)
              | Some stored \<Rightarrow> (Inr stored, rm1\<lparr>t_orders := t_orders rm1 @ [stored]\<rparr>)))"

text \<open>
  \<^verbatim>\<open>orderService.getMyOrders(userId)\<close>: the customer's orders, newest first, each with its
  restaurant's name, phone and address embedded.
\<close>

definition embed_restaurant :: "restaurant list \<Rightarrow> order \<Rightarrow> order_joined" where
  "embed_restaurant rs row =
     order.extend row
       \<lparr>o_restaurant =
          (case filter (\<lambda>r. Some (r_id r) = o_restaurant_id row) rs of
             [] \<Rightarrow> None
           | r # _ \<Rightarrow> Some (r_name r, r_phone r, r_address r))\<rparr>"

definition orderService_getMyOrders ::
  "string \<Rightarrow> remote \<Rightarrow> (string + order_joined list) \<times> remote" where
  "orderService_getMyOrders userId rm =
     (let rm1 = send (Select, ''orders'') rm
      in case refuse rm (Select, ''orders'') of
           Some e \<Rightarrow> (Inl e, rm1)
         | None \<Rightarrow>
             (Inr (rev (sort_key o_created_at
                     (map (embed_restaurant (t_restaurants rm))
                        (filter (\<lambda>row. o_customer_id row = Some userId) (t_orders rm))))),
              rm1))"

section \<open>The order container (OrderContext.tsx)\<close>

text \<open>The three \<^verbatim>\<open>useState\<close> cells of \<^verbatim>\<open>OrderProvider\<close>.\<close>

record 'a order_ctx =
  orders :: "'a order_scheme list"
  loading :: bool
  error :: "string option"

text \<open>
  \<^verbatim>\<open>getRestaurantOrders\<close> of the container. With no user it returns at once. Otherwise it
  sets the flags, binds \<^verbatim>\<open>orderService.getRestaurantOrders\<close> without calling it
  (\<^verbatim>\<open>await orderService.getRestaurantOrders.bind(orderService)\<close> awaits a function value),
  takes \<^verbatim>\<open>orderData = []\<close>, stores it and clears \<open>loading\<close>. Nothing in the \<^verbatim>\<open>try\<close> block
  throws, so the \<^verbatim>\<open>catch\<close> branch is never taken.
\<close>

definition getRestaurantOrders ::
  "user option \<Rightarrow> 'a order_ctx \<Rightarrow> remote \<Rightarrow> 'a order_ctx \<times> remote" where
  "getRestaurantOrders usr cx rm =
     (case usr of
        None \<Rightarrow> (cx, rm)
      | Some u \<Rightarrow>
          (let cx1 = cx\<lparr>loading := True\<rparr>;
               cx2 = cx1\<lparr>error := None\<rparr>;
               orderData = [];
               cx3 = cx2\<lparr>orders := orderData\<rparr>
           in (cx3\<lparr>loading := False\<rparr>, rm)))"

text \<open>\<^verbatim>\<open>error.message || fallback\<close> of the \<^verbatim>\<open>catch\<close> blocks.\<close>

definition message_or :: "string \<Rightarrow> string \<Rightarrow> string" where
  "message_or msg fallback = (if msg = [] then fallback else msg)"

text \<open>
  \<^verbatim>\<open>getCustomerOrders\<close>: nothing without a user; otherwise the fetched list replaces the
  cache, or the empty list does when the fetch fails.
\<close>

definition getCustomerOrders ::
  "user option \<Rightarrow> unit order_joined_ext order_ctx \<Rightarrow> remote
     \<Rightarrow> unit order_joined_ext order_ctx \<times> remote" where
  "getCustomerOrders usr cx rm =
     (case usr of
        None \<Rightarrow> (cx, rm)
      | Some u \<Rightarrow>
          (let cx1 = cx\<lparr>loading := True, error := None\<rparr>
           in case orderService_getMyOrders (u_id u) rm of
                (Inr orderData, rm1) \<Rightarrow> (cx1\<lparr>orders := orderData, loading := False\<rparr>, rm1)
              | (Inl e, rm1) \<Rightarrow>
                  (cx1\<lparr>error := Some ''Failed to load orders'', orders := [],
                        loading := False\<rparr>, rm1)))"

text \<open>
  The field checks of \<^verbatim>\<open>createOrder\<close>, in the order of the source; the messages are
  collected and joined with a comma and a space.
\<close>

definition order_errors :: "order_data \<Rightarrow> string list" where
  "order_errors orderData =
     (if falsy_str (od_restaurant_id orderData) then [''Restaurant is required''] else [])
     @ (if (case od_items orderData of None \<Rightarrow> True | Some its \<Rightarrow> length its = 0)
        then [''Order items are required''] else [])
     @ (if (case od_delivery_address orderData of None \<Rightarrow> True | Some a \<Rightarrow> trim a = [])
        then [''Delivery address is required''] else [])
     @ (if (case od_customer_phone orderData of None \<Rightarrow> True | Some a \<Rightarrow> trim a = [])
        then [''Phone number is required''] else [])"

text \<open>
  \<^verbatim>\<open>createOrder(orderData)\<close> of the container. Without a user it throws before touching
  the state. Otherwise: the field checks, then \<^verbatim>\<open>orderService.createOrder\<close> with the
  user's id as customer, then a refresh of the cache when the user is a customer. Every
  error, a failed check included, is stored in \<open>error\<close> and thrown again; \<open>loading\<close> is
  cleared on every path. Subtotal, delivery fee and total are handed on as supplied:
  nothing compares them with each other or with the items.
\<close>

definition createOrder ::
  "(string \<Rightarrow> rat option) \<Rightarrow> string \<Rightarrow> nat \<Rightarrow> user option \<Rightarrow> order_data
     \<Rightarrow> unit order_joined_ext order_ctx \<Rightarrow> remote
     \<Rightarrow> (string + string) \<times> unit order_joined_ext order_ctx \<times> remote" where
  "createOrder pf new_id srv_now usr orderData cx rm =
     (case usr of
        None \<Rightarrow> (Inl ''User not authenticated'', cx, rm)
      | Some u \<Rightarrow>
          (let cx1 = cx\<lparr>loading := True, error := None\<rparr>;
               errors = order_errors orderData
           in if length errors > 0
              then (let errorMessage = message_or (join '', '' errors) ''Failed to create order''
                    in (Inl errorMessage, cx1\<lparr>error := Some errorMessage, loading := False\<rparr>, rm))
              else
                (case orderService_createOrder pf new_id srv_now
                        (order_data.extend orderData \<lparr>od_customer_id = u_id u\<rparr>) rm of
                   (Inl e, rm1) \<Rightarrow>
                     (let errorMessage = message_or e ''Failed to create order''
                      in (Inl errorMessage, cx1\<lparr>error := Some errorMessage, loading := False\<rparr>,
                          rm1))
                 | (Inr stored, rm1) \<Rightarrow>
                     (let (cx2, rm2) =
                            (if u_role u = Customer then getCustomerOrders usr cx1 rm1
                             else (cx1, rm1))
                      in (Inr (o_id stored), cx2\<lparr>loading := False\<rparr>, rm2)))))"

text \<open>
  \<^verbatim>\<open>updateOrderStatus(orderId, status, driverId?)\<close> of the container: the remote update
  first; when it succeeds the cached list is mapped, replacing each order with the given
  id by a copy with the new status, a fresh \<^verbatim>\<open>updated_at\<close> and, for a truthy
  \<open>driverId\<close>, that \<^verbatim>\<open>driver_id\<close>. When the update fails the message is stored and thrown.
\<close>

definition patch_order ::
  "nat \<Rightarrow> string \<Rightarrow> order_status \<Rightarrow> string option \<Rightarrow> 'a order_scheme \<Rightarrow> 'a order_scheme" where
  "patch_order now orderId status driverId ord =
     (if o_id ord = orderId
      then ord\<lparr>o_status := status, o_updated_at := now,
                o_driver_id := (if falsy_str driverId then o_driver_id ord else driverId)\<rparr>
      else ord)"

definition updateOrderStatus ::
  "nat \<Rightarrow> nat \<Rightarrow> string \<Rightarrow> order_status \<Rightarrow> string option \<Rightarrow> 'a order_ctx \<Rightarrow> remote
     \<Rightarrow> (string + unit) \<times> 'a order_ctx \<times> remote" where
  "updateOrderStatus srv_now now orderId status driverId cx rm =
     (let cx1 = cx\<lparr>error := None\<rparr>
      in case orderService_updateOrderStatus srv_now orderId status driverId rm of
           (Inr _, rm1) \<Rightarrow>
             (Inr (), cx1\<lparr>orders := map (patch_order now orderId status driverId) (orders cx1)\<rparr>,
              rm1)
         | (Inl e, rm1) \<Rightarrow>
             (let errorMessage = message_or e ''Failed to update order status''
              in (Inl errorMessage, cx1\<lparr>error := Some errorMessage\<rparr>, rm1)))"

text \<open>
  \<^verbatim>\<open>acceptDelivery(orderId)\<close>: the status update with the fixed status \<^verbatim>\<open>'delivering'\<close>
  and the user's own id as driver, then the same patch of the cache with
  \<^verbatim>\<open>driver_id: user?.id\<close>. The order is not read before it is written.
\<close>

definition accept_patch :: "nat \<Rightarrow> string \<Rightarrow> user \<Rightarrow> 'a order_scheme \<Rightarrow> 'a order_scheme" where
  "accept_patch now orderId u ord =
     (if o_id ord = orderId
      then ord\<lparr>o_status := Delivering, o_driver_id := Some (u_id u), o_updated_at := now\<rparr>
      else ord)"

definition acceptDelivery ::
  "nat \<Rightarrow> nat \<Rightarrow> user option \<Rightarrow> string \<Rightarrow> 'a order_ctx \<Rightarrow> remote
     \<Rightarrow> (string + unit) \<times> 'a order_ctx \<times> remote" where
  "acceptDelivery srv_now now usr orderId cx rm =
     (case usr of
        None \<Rightarrow> (Inl ''User not authenticated'', cx, rm)
      | Some u \<Rightarrow>
          (let cx1 = cx\<lparr>error := None\<rparr>
           in case orderService_updateOrderStatus srv_now orderId Delivering (Some (u_id u)) rm of
                (Inr _, rm1) \<Rightarrow>
                  (Inr (), cx1\<lparr>orders := map (accept_patch now orderId u) (orders cx1)\<rparr>, rm1)
              | (Inl e, rm1) \<Rightarrow>
                  (let errorMessage = message_or e ''Failed to accept delivery''
                   in (Inl errorMessage, cx1\<lparr>error := Some errorMessage\<rparr>, rm1))))"

section \<open>IEEE doubles\<close>













section \<open>The review service (supabase-api.ts)\<close>





section \<open>The auth service (supabase-api.ts)\<close>

text \<open>
  \<^verbatim>\<open>.maybeSingle()\<close>: no row is \<^verbatim>\<open>null\<close>, one row is that row, more rows are an error of the
  client library.
\<close>

definition maybeSingle :: "'a list \<Rightarrow> string + 'a option" where
  "maybeSingle rows =
     (case rows of
        [] \<Rightarrow> Inr None
      | [x] \<Rightarrow> Inr (Some x)
      | _ \<Rightarrow> Inl ''JSON object requested, multiple (or no) rows returned'')"

text \<open>The \<^verbatim>\<open>userResponse\<close> object: \<^verbatim>\<open>phone\<close> and \<^verbatim>\<open>town\<close> are \<^verbatim>\<open>user.phone || undefined\<close>.\<close>

definition userResponse :: "user_row \<Rightarrow> user" where
  "userResponse r =
     \<lparr>u_id = ur_id r, u_name = ur_name r, u_email = ur_email r, u_role = ur_role r,
      u_phone = (if falsy_str (ur_phone r) then None else ur_phone r),
      u_town = (if falsy_str (ur_town r) then None else ur_town r)\<rparr>"

text \<open>
  \<^verbatim>\<open>authService.login(credentials)\<close>. \<open>compare\<close> is \<^verbatim>\<open>bcrypt.compare\<close> (password first, hash
  second), a library the repository does not implement. An error of the store is thrown
  as it is; a missing user and a password that does not verify both throw
  \<^verbatim>\<open>new Error('Invalid credentials')\<close>.
\<close>

definition authService_login ::
  "(string \<Rightarrow> string \<Rightarrow> bool) \<Rightarrow> string \<Rightarrow> string \<Rightarrow> remote \<Rightarrow> (string + user) \<times> remote" where
  "authService_login compare email password rm =
     (let rm1 = send (Select, ''users'') rm
      in case refuse rm (Select, ''users'') of
           Some e \<Rightarrow> (Inl e, rm1)
         | None \<Rightarrow>
             (case maybeSingle (filter (\<lambda>r. ur_email r = email) (t_users rm)) of
                Inl e \<Rightarrow> (Inl e, rm1)
              | Inr None \<Rightarrow> (Inl ''Invalid credentials'', rm1)
              | Inr (Some usr) \<Rightarrow>
                  if \<not> compare password (ur_password_hash usr)
                  then (Inl ''Invalid credentials'', rm1)
                  else (Inr (userResponse usr), rm1)))"

section \<open>Form validation: the restaurant and the menu container\<close>

text \<open>
  A form object (\<^verbatim>\<open>restaurantData\<close>, \<^verbatim>\<open>itemData\<close>, both of type \<^verbatim>\<open>any\<close>) is a function from
  field names to values; a field that is not there is \<open>JUndefined\<close>.
\<close>

type_synonym form = "string \<Rightarrow> jsval"

text \<open>\<^verbatim>\<open>field.replace('_', ' ')\<close> replaces the first underscore only.\<close>

fun replace_first :: "char \<Rightarrow> char \<Rightarrow> string \<Rightarrow> string" where
  "replace_first a b [] = []"
| "replace_first a b (c # cs) = (if c = a then b # cs else c # replace_first a b cs)"

definition required_message :: "string \<Rightarrow> string" where
  "required_message field = replace_first (CHR ''_'') (CHR '' '') field @ '' is required''"

text \<open>
  The loop \<^verbatim>\<open>for (const field of requiredFields)\<close>: the first field that fails the test
  throws; \<open>None\<close> when the loop runs through.
\<close>

fun required_check :: "(jsval \<Rightarrow> bool) \<Rightarrow> form \<Rightarrow> string list \<Rightarrow> string option" where
  "required_check missing d [] = None"
| "required_check missing d (field # rest) =
     (if missing (d field) then Some (required_message field)
      else required_check missing d rest)"

text \<open>\<^verbatim>\<open>isNaN(Number(v)) || Number(v) < 0\<close> and \<^verbatim>\<open>isNaN(Number(v)) || Number(v) <= 0\<close>.\<close>

definition not_a_fee :: "(string \<Rightarrow> rat option) \<Rightarrow> jsval \<Rightarrow> bool" where
  "not_a_fee ns v = (case Number ns v of None \<Rightarrow> True | Some n \<Rightarrow> n < 0)"

definition not_a_price :: "(string \<Rightarrow> rat option) \<Rightarrow> jsval \<Rightarrow> bool" where
  "not_a_price ns v = (case Number ns v of None \<Rightarrow> True | Some n \<Rightarrow> n \<le> 0)"

subsection \<open>Restaurant creation\<close>

definition restaurant_requiredFields :: "string list" where
  "restaurant_requiredFields =
     [''name'', ''description'', ''town'', ''address'', ''phone'', ''delivery_time'',
      ''delivery_fee'', ''min_order'', ''categories'']"

text \<open>\<^verbatim>\<open>!v || (Array.isArray(v) && v.length === 0)\<close>.\<close>

definition restaurant_missing :: "jsval \<Rightarrow> bool" where
  "restaurant_missing v =
     (falsy v \<or> (case v of JStrs xs \<Rightarrow> length xs = 0 | _ \<Rightarrow> False))"

text \<open>The checks of \<^verbatim>\<open>createRestaurant\<close> in source order: \<open>Some\<close> of the first message thrown.\<close>

definition restaurant_validation :: "(string \<Rightarrow> rat option) \<Rightarrow> form \<Rightarrow> string option" where
  "restaurant_validation ns restaurantData =
     (case required_check restaurant_missing restaurantData restaurant_requiredFields of
        Some msg \<Rightarrow> Some msg
      | None \<Rightarrow>
          if not_a_fee ns (restaurantData ''delivery_fee'')
          then Some ''Valid delivery fee is required''
          else if not_a_fee ns (restaurantData ''min_order'')
          then Some ''Valid minimum order amount is required''
          else None)"

text \<open>\<^verbatim>\<open>v || ''\<close>.\<close>

definition or_empty :: "jsval \<Rightarrow> jsval" where
  "or_empty v = (if falsy v then JStr [] else v)"

text \<open>
  How the store reads a JSON value into a text or a text-array column: a string, or an
  array of strings, is taken as it is; \<^verbatim>\<open>null\<close> and a missing key are \<^verbatim>\<open>NULL\<close>. The store's
  own coercions of numbers and booleans to text are not modelled: such a value counts as
  \<^verbatim>\<open>NULL\<close> here.
\<close>

definition text_column :: "jsval \<Rightarrow> string option" where
  "text_column v = (case v of JStr s \<Rightarrow> Some s | _ \<Rightarrow> None)"

definition text_array_column :: "jsval \<Rightarrow> string list option" where
  "text_array_column v = (case v of JStrs xs \<Rightarrow> Some xs | _ \<Rightarrow> None)"

text \<open>
  \<^verbatim>\<open>INSERT INTO restaurants\<close> with the row \<^verbatim>\<open>restaurantService.createRestaurant\<close> builds:
  \<^verbatim>\<open>description\<close> and \<^verbatim>\<open>image\<close> default to the empty string, the two amounts are read by
  \<^verbatim>\<open>parseFloat\<close>, \<^verbatim>\<open>is_active\<close> is true. The \<^verbatim>\<open>NOT NULL\<close> columns must be present; the store
  supplies the id, rating 0 and the timestamps.
\<close>

definition restaurants_insert_row ::
  "(string \<Rightarrow> rat option) \<Rightarrow> string \<Rightarrow> nat \<Rightarrow> form \<Rightarrow> string \<Rightarrow> restaurant option" where
  "restaurants_insert_row pf new_id srv_now restaurantData userId =
     (case (text_column (restaurantData ''name''), text_column (restaurantData ''town''),
            text_column (restaurantData ''address''), text_column (restaurantData ''phone''),
            text_column (restaurantData ''delivery_time''),
            parseFloat pf (restaurantData ''delivery_fee''),
            parseFloat pf (restaurantData ''min_order''),
            text_array_column (restaurantData ''categories'')) of
        (Some name, Some town, Some address, Some phone, Some delivery_time, Some fee,
         Some min_order, Some categories) \<Rightarrow>
          Some \<lparr>r_id = new_id, r_user_id = Some userId, r_name = name,
                r_description = text_column (or_empty (restaurantData ''description'')),
                r_image = text_column (or_empty (restaurantData ''image'')),
                r_town = town, r_address = address, r_phone = phone, r_rating = Some 0,
                r_delivery_time = delivery_time, r_delivery_fee = fee, r_min_order = min_order,
                r_categories = categories, r_is_active = True,
                r_created_at = srv_now, r_updated_at = srv_now\<rparr>
      | _ \<Rightarrow> None)"

text \<open>\<^verbatim>\<open>restaurantService.createRestaurant(restaurantData, userId)\<close> returns the new id.\<close>

definition restaurantService_createRestaurant ::
  "(string \<Rightarrow> rat option) \<Rightarrow> string \<Rightarrow> nat \<Rightarrow> form \<Rightarrow> string \<Rightarrow> remote
     \<Rightarrow> (string + string) \<times> remote" where
  "restaurantService_createRestaurant pf new_id srv_now restaurantData userId rm =
     (let rm1 = send (Insert, ''restaurants'') rm
      in case refuse rm (Insert, ''restaurants'') of
           Some e \<Rightarrow> (Inl e, rm1)
         | None \<Rightarrow>
             (case restaurants_insert_row pf new_id srv_now restaurantData userId of
                None \<Rightarrow> (Inl ''null value violates not-null constraint'', rm1)
              | Some stored \<Rightarrow>
                  (Inr (r_id stored), rm1\<lparr>t_restaurants := t_restaurants rm1 @ [stored]\<rparr>)))"

text \<open>
  \<^verbatim>\<open>restaurantService.getMyRestaurant(userId)\<close> and \<^verbatim>\<open>restaurantService.getRestaurants()\<close>
  (active restaurants, newest first).
\<close>

definition restaurantService_getMyRestaurant ::
  "string \<Rightarrow> remote \<Rightarrow> (string + restaurant option) \<times> remote" where
  "restaurantService_getMyRestaurant userId rm =
     (let rm1 = send (Select, ''restaurants'') rm
      in case refuse rm (Select, ''restaurants'') of
           Some e \<Rightarrow> (Inl e, rm1)
         | None \<Rightarrow> (maybeSingle (filter (\<lambda>r. r_user_id r = Some userId) (t_restaurants rm)), rm1))"

definition restaurantService_getRestaurants ::
  "remote \<Rightarrow> (string + restaurant list) \<times> remote" where
  "restaurantService_getRestaurants rm =
     (let rm1 = send (Select, ''restaurants'') rm
      in case refuse rm (Select, ''restaurants'') of
           Some e \<Rightarrow> (Inl e, rm1)
         | None \<Rightarrow> (Inr (rev (sort_key r_created_at (filter r_is_active (t_restaurants rm)))), rm1))"

text \<open>The four \<^verbatim>\<open>useState\<close> cells of \<^verbatim>\<open>RestaurantProvider\<close>.\<close>

record restaurant_ctx =
  restaurants :: "restaurant list"
  myRestaurant :: "restaurant option"
  rc_loading :: bool
  rc_error :: "string option"

text \<open>
  \<^verbatim>\<open>fetchMyRestaurant\<close> and \<^verbatim>\<open>fetchRestaurants\<close>. Each catches its own errors. The part of
  each after its \<^verbatim>\<open>await\<close> is a function of the response.
\<close>

definition fetchMyRestaurant_done ::
  "string + restaurant option \<Rightarrow> restaurant_ctx \<Rightarrow> restaurant_ctx" where
  "fetchMyRestaurant_done response cx =
     (case response of
        Inr data \<Rightarrow> cx\<lparr>myRestaurant := data\<rparr>
      | Inl e \<Rightarrow> cx\<lparr>rc_error := Some ''Failed to load restaurant'', myRestaurant := None\<rparr>)"

definition fetchMyRestaurant ::
  "user option \<Rightarrow> restaurant_ctx \<Rightarrow> remote \<Rightarrow> restaurant_ctx \<times> remote" where
  "fetchMyRestaurant usr cx rm =
     (case usr of
        None \<Rightarrow> (cx, rm)
      | Some u \<Rightarrow>
          (let cx1 = cx\<lparr>rc_error := None\<rparr>;
               (response, rm1) = restaurantService_getMyRestaurant (u_id u) rm
           in (fetchMyRestaurant_done response cx1, rm1)))"

definition fetchRestaurants_done ::
  "string + restaurant list \<Rightarrow> restaurant_ctx \<Rightarrow> restaurant_ctx" where
  "fetchRestaurants_done response cx =
     (case response of
        Inr restaurantData \<Rightarrow> cx\<lparr>restaurants := restaurantData, rc_loading := False\<rparr>
      | Inl e \<Rightarrow>
          cx\<lparr>rc_error := Some ''Failed to load restaurants'', restaurants := [],
              rc_loading := False\<rparr>)"

definition fetchRestaurants :: "restaurant_ctx \<Rightarrow> remote \<Rightarrow> restaurant_ctx \<times> remote" where
  "fetchRestaurants cx rm =
     (let cx1 = cx\<lparr>rc_loading := True, rc_error := None\<rparr>;
          (response, rm1) = restaurantService_getRestaurants rm
      in (fetchRestaurants_done response cx1, rm1))"

text \<open>
  \<^verbatim>\<open>Promise.all([fetchMyRestaurant(), fetchRestaurants()])\<close> for a logged-in user: each
  call runs up to its \<^verbatim>\<open>await\<close> (flags set, request sent), then the two continue as their
  responses arrive, taken here in the order the requests were sent.
\<close>

definition refresh_both :: "user \<Rightarrow> restaurant_ctx \<Rightarrow> remote \<Rightarrow> restaurant_ctx \<times> remote" where
  "refresh_both u cx rm =
     (let cx1 = cx\<lparr>rc_error := None\<rparr>;
          (mine, rm1) = restaurantService_getMyRestaurant (u_id u) rm;
          cx2 = cx1\<lparr>rc_loading := True, rc_error := None\<rparr>;
          (everyone, rm2) = restaurantService_getRestaurants rm1
      in (fetchRestaurants_done everyone (fetchMyRestaurant_done mine cx2), rm2))"

text \<open>
  \<^verbatim>\<open>createRestaurant(restaurantData)\<close> of the container. Without a user it throws before
  the \<^verbatim>\<open>try\<close>. Inside it: the required-field loop and the two amount checks, all before
  the first remote call; then the insert; then both refreshes. Every error is stored in
  \<open>error\<close> and thrown again; \<open>loading\<close> is cleared at the end.
\<close>

definition createRestaurant ::
  "(string \<Rightarrow> rat option) \<Rightarrow> (string \<Rightarrow> rat option) \<Rightarrow> string \<Rightarrow> nat \<Rightarrow> user option \<Rightarrow> form
     \<Rightarrow> restaurant_ctx \<Rightarrow> remote \<Rightarrow> (string + string) \<times> restaurant_ctx \<times> remote" where
  "createRestaurant pf ns new_id srv_now usr restaurantData cx rm =
     (case usr of
        None \<Rightarrow> (Inl ''User not authenticated'', cx, rm)
      | Some u \<Rightarrow>
          (let cx1 = cx\<lparr>rc_loading := True, rc_error := None\<rparr>
           in case restaurant_validation ns restaurantData of
                Some msg \<Rightarrow>
                  (let errorMessage = message_or msg ''Failed to create restaurant''
                   in (Inl errorMessage,
                       cx1\<lparr>rc_error := Some errorMessage, rc_loading := False\<rparr>, rm))
              | None \<Rightarrow>
                  (case restaurantService_createRestaurant pf new_id srv_now restaurantData
                          (u_id u) rm of
                     (Inl e, rm1) \<Rightarrow>
                       (let errorMessage = message_or e ''Failed to create restaurant''
                        in (Inl errorMessage,
                            cx1\<lparr>rc_error := Some errorMessage, rc_loading := False\<rparr>, rm1))
                   | (Inr restaurantId, rm1) \<Rightarrow>
                       (let (cx2, rm2) = refresh_both u cx1 rm1
                        in (Inr restaurantId, cx2\<lparr>rc_loading := False\<rparr>, rm2)))))"

subsection \<open>Menu item creation\<close>

definition menu_requiredFields :: "string list" where
  "menu_requiredFields = [''restaurant_id'', ''name'', ''description'', ''price'', ''category'']"

text \<open>\<^verbatim>\<open>!v || (typeof v === 'string' && !v.trim())\<close>.\<close>

definition menu_missing :: "jsval \<Rightarrow> bool" where
  "menu_missing v = (falsy v \<or> (case v of JStr s \<Rightarrow> trim s = [] | _ \<Rightarrow> False))"

text \<open>The checks of \<^verbatim>\<open>addMenuItem\<close> in source order.\<close>

definition menu_validation :: "(string \<Rightarrow> rat option) \<Rightarrow> form \<Rightarrow> string option" where
  "menu_validation ns itemData =
     (case required_check menu_missing itemData menu_requiredFields of
        Some msg \<Rightarrow> Some msg
      | None \<Rightarrow>
          if not_a_price ns (itemData ''price'') then Some ''Valid item price is required''
          else None)"

text \<open>
  \<^verbatim>\<open>INSERT INTO menu_items\<close> with the row \<^verbatim>\<open>menuService.createMenuItem\<close> builds:
  \<^verbatim>\<open>description || ''\<close>, \<^verbatim>\<open>image || ''\<close>, the price read by \<^verbatim>\<open>parseFloat\<close>, and
  \<^verbatim>\<open>available\<close> true unless the form holds \<^verbatim>\<open>false\<close>.
\<close>

definition menu_items_insert_row ::
  "(string \<Rightarrow> rat option) \<Rightarrow> string \<Rightarrow> nat \<Rightarrow> form \<Rightarrow> menu_item option" where
  "menu_items_insert_row pf new_id srv_now menuItemData =
     (case (text_column (menuItemData ''name''), text_column (menuItemData ''category''),
            parseFloat pf (menuItemData ''price'')) of
        (Some name, Some category, Some price) \<Rightarrow>
          Some \<lparr>m_id = new_id, m_restaurant_id = text_column (menuItemData ''restaurant_id''),
                m_name = name,
                m_description = text_column (or_empty (menuItemData ''description'')),
                m_category = category, m_price = price,
                m_image = text_column (or_empty (menuItemData ''image'')),
                m_available = (menuItemData ''available'' \<noteq> JBool False),
                m_created_at = srv_now, m_updated_at = srv_now\<rparr>
      | _ \<Rightarrow> None)"

definition menuService_createMenuItem ::
  "(string \<Rightarrow> rat option) \<Rightarrow> string \<Rightarrow> nat \<Rightarrow> form \<Rightarrow> remote
     \<Rightarrow> (string + menu_item) \<times> remote" where
  "menuService_createMenuItem pf new_id srv_now menuItemData rm =
     (let rm1 = send (Insert, ''menu_items'') rm
      in case refuse rm (Insert, ''menu_items'') of
           Some e \<Rightarrow> (Inl e, rm1)
         | None \<Rightarrow>
             (case menu_items_insert_row pf new_id srv_now menuItemData of
                None \<Rightarrow> (Inl ''null value violates not-null constraint'', rm1)
              | Some stored \<Rightarrow> (Inr stored, rm1\<lparr>t_menu_items := t_menu_items rm1 @ [stored]\<rparr>)))"

text \<open>
  \<^verbatim>\<open>menuService.getMenuItems(restaurantId)\<close>: the restaurant's items by category. The
  argument is the form's \<^verbatim>\<open>restaurant_id\<close>; a value that is not a string matches no uuid
  and the store answers with an error.
\<close>

definition menuService_getMenuItems ::
  "jsval \<Rightarrow> remote \<Rightarrow> (string + menu_item list) \<times> remote" where
  "menuService_getMenuItems restaurantId rm =
     (let rm1 = send (Select, ''menu_items'') rm
      in case refuse rm (Select, ''menu_items'') of
           Some e \<Rightarrow> (Inl e, rm1)
         | None \<Rightarrow>
             (case text_column restaurantId of
                None \<Rightarrow> (Inl ''invalid input syntax for type uuid'', rm1)
              | Some rid \<Rightarrow>
                  (Inr (sort_key m_category
                          (filter (\<lambda>m. m_restaurant_id m = Some rid) (t_menu_items rm))),
                   rm1)))"

text \<open>The three \<^verbatim>\<open>useState\<close> cells of \<^verbatim>\<open>MenuProvider\<close>.\<close>

record menu_ctx =
  menuItems :: "menu_item list"
  mc_loading :: bool
  mc_error :: "string option"

definition fetchMenuItems :: "jsval \<Rightarrow> menu_ctx \<Rightarrow> remote \<Rightarrow> menu_ctx \<times> remote" where
  "fetchMenuItems restaurantId cx rm =
     (let cx1 = cx\<lparr>mc_loading := True, mc_error := None\<rparr>
      in case menuService_getMenuItems restaurantId rm of
           (Inr items, rm1) \<Rightarrow> (cx1\<lparr>menuItems := items, mc_loading := False\<rparr>, rm1)
         | (Inl e, rm1) \<Rightarrow>
             (cx1\<lparr>mc_error := Some ''Failed to load menu items'', menuItems := [],
                   mc_loading := False\<rparr>, rm1))"

text \<open>
  \<^verbatim>\<open>addMenuItem(itemData)\<close> of the menu container: the required-field loop and the price
  check, both before the first remote call; then the insert and a refresh of the menu.
\<close>

definition addMenuItem ::
  "(string \<Rightarrow> rat option) \<Rightarrow> (string \<Rightarrow> rat option) \<Rightarrow> string \<Rightarrow> nat \<Rightarrow> form
     \<Rightarrow> menu_ctx \<Rightarrow> remote \<Rightarrow> (string + string) \<times> menu_ctx \<times> remote" where
  "addMenuItem pf ns new_id srv_now itemData cx rm =
     (let cx1 = cx\<lparr>mc_loading := True, mc_error := None\<rparr>
      in case menu_validation ns itemData of
           Some msg \<Rightarrow>
             (let errorMessage = message_or msg ''Failed to add menu item''
              in (Inl errorMessage, cx1\<lparr>mc_error := Some errorMessage, mc_loading := False\<rparr>, rm))
         | None \<Rightarrow>
             (case menuService_createMenuItem pf new_id srv_now itemData rm of
                (Inl e, rm1) \<Rightarrow>
                  (let errorMessage = message_or e ''Failed to add menu item''
                   in (Inl errorMessage, cx1\<lparr>mc_error := Some errorMessage, mc_loading := False\<rparr>,
                       rm1))
              | (Inr item, rm1) \<Rightarrow>
                  (let (cx2, rm2) = fetchMenuItems (itemData ''restaurant_id'') cx1 rm1
                   in (Inr (m_id item), cx2\<lparr>mc_loading := False\<rparr>, rm2))))"

text \<open>
  The inputs the validation is required to stop, in the words of the specification: a
  missing required field (absent, \<^verbatim>\<open>null\<close> or the empty string), an empty one (missing,
  or the empty array), a negative amount, a price that is not positive.
\<close>

definition missing_field :: "jsval \<Rightarrow> bool" where
  "missing_field v = (v = JUndefined \<or> v = JNull \<or> v = JStr [])"

definition empty_field :: "jsval \<Rightarrow> bool" where
  "empty_field v = (missing_field v \<or> v = JStrs [])"

definition negative_amount :: "(string \<Rightarrow> rat option) \<Rightarrow> jsval \<Rightarrow> bool" where
  "negative_amount ns v = (case Number ns v of None \<Rightarrow> False | Some n \<Rightarrow> n < 0)"

definition non_positive_amount :: "(string \<Rightarrow> rat option) \<Rightarrow> jsval \<Rightarrow> bool" where
  "non_positive_amount ns v = (case Number ns v of None \<Rightarrow> False | Some n \<Rightarrow> n \<le> 0)"

text \<open>The messages the two validations throw.\<close>

definition restaurant_validation_messages :: "string list" where
  "restaurant_validation_messages =
     map required_message restaurant_requiredFields
     @ [''Valid delivery fee is required'', ''Valid minimum order amount is required'']"

definition menu_validation_messages :: "string list" where
  "menu_validation_messages =
     map required_message menu_requiredFields @ [''Valid item price is required'']"

section \<open>The store's rule for inserting a review (create_initial_schema.sql)\<close>

text \<open>
  The row of an \<^verbatim>\<open>INSERT INTO reviews\<close>: every column the client may send, \<open>None\<close> for
  \<^verbatim>\<open>NULL\<close>. The column \<^verbatim>\<open>rating\<close> has type \<^verbatim>\<open>integer\<close>.
\<close>

record review_insert =
  ri_restaurant_id :: "string option"
  ri_customer_id :: "string option"
  ri_order_id :: "string option"
  ri_rating :: "int option"
  ri_comment :: "string option"

text \<open>
  Policy \<^verbatim>\<open>"Customers can create reviews for own orders"\<close>, \<^verbatim>\<open>FOR INSERT TO authenticated\<close>:
  \<^verbatim>\<open>auth.uid() = customer_id AND EXISTS (SELECT 1 FROM orders WHERE orders.id =
  reviews.order_id AND orders.customer_id = auth.uid() AND orders.status = 'delivered')\<close>.
  \<open>uid\<close> is \<^verbatim>\<open>auth.uid()\<close>, \<open>None\<close> for a request that is not authenticated (row level
  security is enabled and no policy admits it). A comparison with \<^verbatim>\<open>NULL\<close> is not true.
\<close>

definition reviews_insert_policy :: "string option \<Rightarrow> order list \<Rightarrow> review_insert \<Rightarrow> bool" where
  "reviews_insert_policy uid rows row =
     (case uid of
        None \<Rightarrow> False
      | Some actor \<Rightarrow>
          Some actor = ri_customer_id row
          \<and> list_ex (\<lambda>ord. Some (o_id ord) = ri_order_id row
                            \<and> o_customer_id ord = Some actor
                            \<and> o_status ord = Delivered) rows)"

text \<open>
  The constraints of table \<^verbatim>\<open>reviews\<close>: \<^verbatim>\<open>rating integer NOT NULL CHECK (rating >= 1 AND
  rating <= 5)\<close>, and the three foreign keys, each satisfied by \<^verbatim>\<open>NULL\<close> or by the id of an
  existing row.
\<close>

definition reviews_constraints :: "remote \<Rightarrow> review_insert \<Rightarrow> bool" where
  "reviews_constraints rm row =
     ((case ri_rating row of None \<Rightarrow> False | Some n \<Rightarrow> n \<ge> 1 \<and> n \<le> 5)
      \<and> (case ri_restaurant_id row of
            None \<Rightarrow> True
          | Some x \<Rightarrow> list_ex (\<lambda>r. r_id r = x) (t_restaurants rm))
      \<and> (case ri_customer_id row of
            None \<Rightarrow> True
          | Some x \<Rightarrow> list_ex (\<lambda>w. ur_id w = x) (t_users rm))
      \<and> (case ri_order_id row of
            None \<Rightarrow> True
          | Some x \<Rightarrow> list_ex (\<lambda>ord. o_id ord = x) (t_orders rm)))"

text \<open>An insert goes through when the policy admits the row and the constraints hold.\<close>

definition reviews_insert_permitted :: "string option \<Rightarrow> remote \<Rightarrow> review_insert \<Rightarrow> bool" where
  "reviews_insert_permitted uid rm row =
     (reviews_insert_policy uid (t_orders rm) row \<and> reviews_constraints rm row)"

text \<open>
  The four conditions the specification names: the actor is the review's customer, the
  referenced order belongs to that customer, the order is delivered, the rating is
  between 1 and 5.
\<close>

definition claimed_review_conditions :: "string option \<Rightarrow> remote \<Rightarrow> review_insert \<Rightarrow> bool" where
  "claimed_review_conditions uid rm row =
     (\<exists>actor. uid = Some actor \<and> ri_customer_id row = Some actor
        \<and> (\<exists>ord \<in> set (t_orders rm).
              ri_order_id row = Some (o_id ord) \<and> o_customer_id ord = Some actor
              \<and> o_status ord = Delivered)
        \<and> (\<exists>n. ri_rating row = Some n \<and> 1 \<le> n \<and> n \<le> 5))"

section \<open>Sample data\<close>

text \<open>
  One delivered order of customer \<open>c1\<close> at restaurant \<open>r1\<close>, already assigned to driver
  \<open>d1\<close>, in a store that answers every request; used by the closed instances below.
\<close>

definition sample_items :: "order_item list" where
  "sample_items =
     [\<lparr>i_id = ''i1'', i_menu_item_id = ''m1'', i_quantity = 2, i_price = 5,
       i_name = ''Ndole'', i_image = None\<rparr>,
      \<lparr>i_id = ''i2'', i_menu_item_id = ''m2'', i_quantity = 1, i_price = 3,
       i_name = ''Puff'', i_image = None\<rparr>]"

definition sample_order :: order where
  "sample_order =
     \<lparr>o_id = ''o1'', o_customer_id = Some ''c1'', o_restaurant_id = Some ''r1'',
      o_driver_id = Some ''d1'', o_status = Delivered, o_items = sample_items,
      o_subtotal = 13, o_delivery_fee = 2, o_total = 15, o_delivery_address = ''Mile 17'',
      o_customer_phone = ''677'', o_notes = None, o_created_at = 1, o_updated_at = 1\<rparr>"

definition sample_store :: remote where
  "sample_store =
     \<lparr>t_users = [], t_restaurants = [], t_menu_items = [], t_orders = [sample_order],
      t_reviews = [], requests = [], refuse = (\<lambda>q. None)\<rparr>"

definition sample_cache :: "unit order_ctx" where
  "sample_cache = \<lparr>orders = [sample_order], loading = False, error = None\<rparr>"

definition sample_driver :: user where
  "sample_driver =
     \<lparr>u_id = ''d2'', u_name = ''Dan'', u_email = ''dan@example.org'', u_role = Driver,
      u_phone = None, u_town = None\<rparr>"

text \<open>
  The order of end-to-end scenario 1 as the checkout form hands it over: two items
  (2 at 5.00, 1 at 3.00), delivery fee 2.00, and the subtotal 13.00 and total 15.00 the
  form computed. \<open>mismatched_order\<close> is the same order with a total of 99.
\<close>

definition scenario_order :: order_data where
  "scenario_order =
     \<lparr>od_restaurant_id = Some ''r1'', od_items = Some sample_items,
      od_subtotal = JNum 13, od_delivery_fee = JNum 2, od_total = JNum 15,
      od_delivery_address = Some ''Mile 17'', od_customer_phone = Some ''677'',
      od_notes = None\<rparr>"

definition mismatched_order :: order_data where
  "mismatched_order = scenario_order\<lparr>od_total := JNum 99\<rparr>"

definition sample_customer :: user where
  "sample_customer =
     \<lparr>u_id = ''c1'', u_name = ''Ada'', u_email = ''ada@example.org'', u_role = Customer,
      u_phone = None, u_town = None\<rparr>"

definition empty_cache :: "unit order_joined_ext order_ctx" where
  "empty_cache = \<lparr>orders = [], loading = False, error = None\<rparr>"

text \<open>
  A store with restaurant \<open>r1\<close> (rating 0, two reviews: 5 and 3), restaurant \<open>r2\<close>
  (rating 0, no review) and one registered user.
\<close>

definition sample_restaurant :: "string \<Rightarrow> restaurant" where
  "sample_restaurant rid =
     \<lparr>r_id = rid, r_user_id = Some ''w1'', r_name = ''Chez Ada'', r_description = None,
      r_image = None, r_town = ''Buea'', r_address = ''Mile 17'', r_phone = ''677'',
      r_rating = Some 0, r_delivery_time = ''30 min'', r_delivery_fee = 2, r_min_order = 5,
      r_categories = [''Grill''], r_is_active = True, r_created_at = 1, r_updated_at = 1\<rparr>"

definition sample_review :: "string \<Rightarrow> int \<Rightarrow> review" where
  "sample_review vid n =
     \<lparr>rv_id = vid, rv_restaurant_id = Some ''r1'', rv_customer_id = Some ''c1'',
      rv_order_id = Some ''o1'', rv_rating = n, rv_comment = None, rv_created_at = 2\<rparr>"

definition sample_user_row :: user_row where
  "sample_user_row =
     \<lparr>ur_id = ''c1'', ur_email = ''ada@example.org'', ur_password_hash = ''hash-of-secret'',
      ur_name = ''Ada'', ur_phone = None, ur_town = None, ur_role = Customer\<rparr>"

definition rated_store :: remote where
  "rated_store =
     sample_store\<lparr>t_users := [sample_user_row],
                  t_restaurants := [sample_restaurant ''r1'', sample_restaurant ''r2''],
                  t_reviews := [sample_review ''v1'' 5, sample_review ''v2'' 3]\<rparr>"


text \<open>A stand-in for \<^verbatim>\<open>bcrypt.compare\<close> on the sample user's hash.\<close>

definition sample_compare :: "string \<Rightarrow> string \<Rightarrow> bool" where
  "sample_compare password hash = (hash = ''hash-of-'' @ password)"

text \<open>
  A restaurant form whose only fault is a delivery fee of -1, a menu form whose only
  fault is a price of 0, and empty containers.
\<close>

definition bad_restaurant_form :: form where
  "bad_restaurant_form =
     (\<lambda>field. JUndefined)
       (''name'' := JStr ''Chez Ada'', ''description'' := JStr ''Grill house'',
        ''town'' := JStr ''Buea'', ''address'' := JStr ''Mile 17'', ''phone'' := JStr ''677'',
        ''delivery_time'' := JStr ''30 min'', ''delivery_fee'' := JNum (- 1),
        ''min_order'' := JNum 5, ''categories'' := JStrs [''Grill''])"

definition bad_item_form :: form where
  "bad_item_form =
     (\<lambda>field. JUndefined)
       (''restaurant_id'' := JStr ''r1'', ''name'' := JStr ''Ndole'',
        ''description'' := JStr ''With plantain'', ''price'' := JNum 0,
        ''category'' := JStr ''Main'')"

definition sample_owner :: user where
  "sample_owner =
     \<lparr>u_id = ''w1'', u_name = ''Wen'', u_email = ''wen@example.org'', u_role = Owner,
      u_phone = None, u_town = None\<rparr>"

definition empty_restaurant_ctx :: restaurant_ctx where
  "empty_restaurant_ctx =
     \<lparr>restaurants = [], myRestaurant = None, rc_loading = False, rc_error = None\<rparr>"

definition empty_menu_ctx :: menu_ctx where
  "empty_menu_ctx = \<lparr>menuItems = [], mc_loading = False, mc_error = None\<rparr>"

text \<open>
  Two reviews by customer \<open>c1\<close> of the delivered order \<open>o1\<close>, rating 4: one for
  restaurant \<open>r1\<close>, one for a restaurant id that no restaurant has.
\<close>

definition good_review :: review_insert where
  "good_review =
     \<lparr>ri_restaurant_id = Some ''r1'', ri_customer_id = Some ''c1'', ri_order_id = Some ''o1'',
      ri_rating = Some 4, ri_comment = None\<rparr>"

definition dangling_review :: review_insert where
  "dangling_review = good_review\<lparr>ri_restaurant_id := Some ''r9''\<rparr>"

section \<open>Theorems\<close>

text \<open>
  C9. For every user and every state of the store, the container's
  \<open>getRestaurantOrders\<close> sends no request to the store (in particular no fetch), and
  for every logged-in user it leaves the cached order list empty, whatever orders the
  store holds; the call without a user sends nothing either.
\<close>

theorem getRestaurantOrders_never_fetches:
  "snd (getRestaurantOrders usr cx rm) = rm
   \<and> requests (snd (getRestaurantOrders usr cx rm)) = requests rm
   \<and> orders (fst (getRestaurantOrders (Some u) cx rm)) = []"
  by (simp add: getRestaurantOrders_def split: option.split)

subsection \<open>Status updates\<close>

lemma updateOrderStatus_service_result:
  "fst (orderService_updateOrderStatus srv_now orderId t driverId rm) =
     (case refuse rm (Update, ''orders'') of None \<Rightarrow> Inr () | Some e \<Rightarrow> Inl e)"
  by (simp add: orderService_updateOrderStatus_def Let_def split: option.split)

lemma updateOrderStatus_service_tables:
  "refuse rm (Update, ''orders'') = None \<Longrightarrow>
   t_orders (snd (orderService_updateOrderStatus srv_now orderId t driverId rm)) =
     map (update_order_row srv_now
            \<lparr>up_status = t, up_driver_id = (if falsy_str driverId then None else driverId)\<rparr>
            orderId)
       (t_orders rm)"
  by (simp add: orderService_updateOrderStatus_def Let_def send_def)

lemma updateOrderStatus_service_requests:
  "requests (snd (orderService_updateOrderStatus srv_now orderId t driverId rm)) =
     requests rm @ [(Update, ''orders'')]"
  by (simp add: orderService_updateOrderStatus_def Let_def send_def split: option.split)

lemma update_order_row_id: "o_id (update_order_row srv_now updates orderId row) = o_id row"
  by (simp add: update_order_row_def)

lemma update_order_row_hit:
  "o_id (update_order_row srv_now updates orderId row) = orderId \<Longrightarrow>
   o_status (update_order_row srv_now updates orderId row) = up_status updates
   \<and> o_driver_id (update_order_row srv_now updates orderId row) =
       (case up_driver_id updates of Some d \<Rightarrow> Some d | None \<Rightarrow> o_driver_id row)
   \<and> o_updated_at (update_order_row srv_now updates orderId row) = srv_now"
  by (simp add: update_order_row_def split: if_splits)

text \<open>
  C2. \<open>orderService.updateOrderStatus\<close> never rejects a transition itself: its result
  is an error exactly when the store answers with one, whatever the order's current
  status. When the store carries the update out, every order with the given id that was
  in status \<open>s\<close> is in status \<open>t\<close> afterwards, for all \<open>s\<close> and \<open>t\<close> of the status domain.
\<close>

theorem updateOrderStatus_any_transition:
  "fst (orderService_updateOrderStatus srv_now orderId t driverId rm) =
     (case refuse rm (Update, ''orders'') of None \<Rightarrow> Inr () | Some e \<Rightarrow> Inl e)
   \<and> (refuse rm (Update, ''orders'') = None \<longrightarrow>
        length (t_orders (snd (orderService_updateOrderStatus srv_now orderId t driverId rm)))
          = length (t_orders rm)
        \<and> (\<forall>i < length (t_orders rm).
              o_id (t_orders rm ! i) = orderId \<and> o_status (t_orders rm ! i) = s \<longrightarrow>
              o_id (t_orders (snd (orderService_updateOrderStatus
                                     srv_now orderId t driverId rm)) ! i) = orderId
              \<and> o_status (t_orders (snd (orderService_updateOrderStatus
                                          srv_now orderId t driverId rm)) ! i) = t))"
  by (simp add: updateOrderStatus_service_result updateOrderStatus_service_tables
      update_order_row_def)

text \<open>A delivered order goes back to pending.\<close>

theorem updateOrderStatus_any_transition_witness:
  "refuse sample_store (Update, ''orders'') = None
   \<and> map o_status (t_orders sample_store) = [Delivered]
   \<and> fst (orderService_updateOrderStatus 7 ''o1'' Pending None sample_store) = Inr ()
   \<and> map o_status
        (t_orders (snd (orderService_updateOrderStatus 7 ''o1'' Pending None sample_store)))
      = [Pending]"
  using updateOrderStatus_any_transition [of 7 "''o1''" Pending None sample_store Delivered]
  by (simp add: sample_store_def sample_order_def orderService_updateOrderStatus_def send_def
      update_order_row_def falsy_str_def)

subsection \<open>Accepting a delivery\<close>

lemma acceptDelivery_accepted:
  "refuse rm (Update, ''orders'') = None \<Longrightarrow>
   acceptDelivery srv_now now (Some u) orderId cx rm =
     (Inr (), cx\<lparr>error := None, orders := map (accept_patch now orderId u) (orders cx)\<rparr>,
      snd (orderService_updateOrderStatus srv_now orderId Delivering (Some (u_id u)) rm))"
  by (simp add: acceptDelivery_def orderService_updateOrderStatus_def Let_def)

lemma acceptDelivery_result:
  "fst (acceptDelivery srv_now now (Some u) orderId cx rm) =
     (case refuse rm (Update, ''orders'') of
        None \<Rightarrow> Inr ()
      | Some e \<Rightarrow> Inl (message_or e ''Failed to accept delivery''))"
  by (simp add: acceptDelivery_def orderService_updateOrderStatus_def Let_def split: option.split)

lemma accept_patch_id: "o_id (accept_patch now orderId u ord) = o_id ord"
  by (simp add: accept_patch_def)

lemma accept_patch_hit:
  "o_id (accept_patch now orderId u ord) = orderId \<Longrightarrow>
   o_status (accept_patch now orderId u ord) = Delivering
   \<and> o_driver_id (accept_patch now orderId u ord) = Some (u_id u)"
  by (simp add: accept_patch_def split: if_splits)

text \<open>
  C3. For every order id and every authenticated actor \<open>u\<close> (an authenticated user
  carries the non-empty id the store gave it), \<open>acceptDelivery\<close> fails only when the
  store answers the update with an error; it never looks at the order's current driver.
  When the store carries the update out, every order with that id, in the store and in
  the cache, has status \<^verbatim>\<open>delivering\<close> and the actor's id as driver, whoever was the
  driver before; no order is added or removed.
\<close>

theorem acceptDelivery_sets_delivering_and_driver:
  "fst (acceptDelivery srv_now now (Some u) orderId cx rm) =
     (case refuse rm (Update, ''orders'') of
        None \<Rightarrow> Inr ()
      | Some e \<Rightarrow> Inl (message_or e ''Failed to accept delivery''))
   \<and> (u_id u \<noteq> [] \<and> refuse rm (Update, ''orders'') = None \<longrightarrow>
        map o_id (t_orders (snd (snd (acceptDelivery srv_now now (Some u) orderId cx rm))))
          = map o_id (t_orders rm)
        \<and> (\<forall>row \<in> set (t_orders (snd (snd (acceptDelivery srv_now now (Some u) orderId cx rm)))).
              o_id row = orderId \<longrightarrow>
              o_status row = Delivering \<and> o_driver_id row = Some (u_id u))
        \<and> map o_id (orders (fst (snd (acceptDelivery srv_now now (Some u) orderId cx rm))))
          = map o_id (orders cx)
        \<and> (\<forall>ord \<in> set (orders (fst (snd (acceptDelivery srv_now now (Some u) orderId cx rm)))).
              o_id ord = orderId \<longrightarrow>
              o_status ord = Delivering \<and> o_driver_id ord = Some (u_id u)))"
proof (intro conjI impI)
  show "fst (acceptDelivery srv_now now (Some u) orderId cx rm) =
     (case refuse rm (Update, ''orders'') of
        None \<Rightarrow> Inr ()
      | Some e \<Rightarrow> Inl (message_or e ''Failed to accept delivery''))"
    by (rule acceptDelivery_result)
next
  assume h: "u_id u \<noteq> [] \<and> refuse rm (Update, ''orders'') = None"
  then have ok: "refuse rm (Update, ''orders'') = None" and nonempty: "u_id u \<noteq> []"
    by simp_all
  let ?upd = "\<lparr>up_status = Delivering, up_driver_id = Some (u_id u)\<rparr>"
  let ?out = "acceptDelivery srv_now now (Some u) orderId cx rm"
  have tabs: "t_orders (snd (snd ?out)) = map (update_order_row srv_now ?upd orderId) (t_orders rm)"
    using nonempty
    by (simp add: acceptDelivery_accepted [OF ok] updateOrderStatus_service_tables [OF ok]
        falsy_str_def)
  have cache: "orders (fst (snd ?out)) = map (accept_patch now orderId u) (orders cx)"
    by (simp add: acceptDelivery_accepted [OF ok])
  show "map o_id (t_orders (snd (snd ?out))) = map o_id (t_orders rm)"
    unfolding tabs by (simp add: update_order_row_id)
  show "\<forall>row \<in> set (t_orders (snd (snd ?out))).
          o_id row = orderId \<longrightarrow> o_status row = Delivering \<and> o_driver_id row = Some (u_id u)"
  proof (intro ballI impI)
    fix row
    assume "row \<in> set (t_orders (snd (snd ?out)))" and hit: "o_id row = orderId"
    then obtain r where "row = update_order_row srv_now ?upd orderId r"
      unfolding tabs by (auto simp only: set_map)
    with hit update_order_row_hit [of srv_now ?upd orderId r]
    show "o_status row = Delivering \<and> o_driver_id row = Some (u_id u)"
      by simp
  qed
  show "map o_id (orders (fst (snd ?out))) = map o_id (orders cx)"
    unfolding cache by (simp add: accept_patch_id)
  show "\<forall>ord \<in> set (orders (fst (snd ?out))).
          o_id ord = orderId \<longrightarrow> o_status ord = Delivering \<and> o_driver_id ord = Some (u_id u)"
  proof (intro ballI impI)
    fix ord
    assume "ord \<in> set (orders (fst (snd ?out)))" and hit: "o_id ord = orderId"
    then obtain r where "ord = accept_patch now orderId u r"
      unfolding cache by (auto simp only: set_map)
    with hit accept_patch_hit [of now orderId u r]
    show "o_status ord = Delivering \<and> o_driver_id ord = Some (u_id u)"
      by simp
  qed
qed

text \<open>Driver \<open>d2\<close> accepts the order that driver \<open>d1\<close> already holds.\<close>

theorem acceptDelivery_sets_delivering_and_driver_witness:
  "u_id sample_driver \<noteq> [] \<and> refuse sample_store (Update, ''orders'') = None
   \<and> map o_driver_id (t_orders sample_store) = [Some ''d1'']
   \<and> fst (acceptDelivery 7 8 (Some sample_driver) ''o1'' sample_cache sample_store) = Inr ()
   \<and> map (\<lambda>row. (o_status row, o_driver_id row))
        (t_orders (snd (snd (acceptDelivery 7 8 (Some sample_driver) ''o1''
                              sample_cache sample_store))))
      = [(Delivering, Some ''d2'')]
   \<and> map (\<lambda>ord. (o_status ord, o_driver_id ord))
        (orders (fst (snd (acceptDelivery 7 8 (Some sample_driver) ''o1''
                            sample_cache sample_store))))
      = [(Delivering, Some ''d2'')]"
  using acceptDelivery_sets_delivering_and_driver
    [of 7 8 sample_driver "''o1''" sample_cache sample_store]
  by (simp add: sample_store_def sample_order_def sample_cache_def sample_driver_def
      acceptDelivery_def orderService_updateOrderStatus_def send_def update_order_row_def
      accept_patch_def falsy_str_def)

subsection \<open>The cached list after a status update\<close>

lemma updateOrderStatus_accepted:
  "refuse rm (Update, ''orders'') = None \<Longrightarrow>
   updateOrderStatus srv_now now orderId status driverId cx rm =
     (Inr (),
      cx\<lparr>error := None, orders := map (patch_order now orderId status driverId) (orders cx)\<rparr>,
      snd (orderService_updateOrderStatus srv_now orderId status driverId rm))"
  by (simp add: updateOrderStatus_def orderService_updateOrderStatus_def Let_def)

lemma updateOrderStatus_Inr:
  "fst (updateOrderStatus srv_now now orderId status driverId cx rm) = Inr () \<Longrightarrow>
   refuse rm (Update, ''orders'') = None"
  by (cases "refuse rm (Update, ''orders'')")
     (simp_all add: updateOrderStatus_def orderService_updateOrderStatus_def Let_def)

text \<open>
  C7. When the container's \<open>updateOrderStatus\<close> succeeds, the only request the store
  received is the update itself (nothing is fetched again), the cached list keeps its
  length and order, every cached order with another id is untouched, and every cached
  order with the given id is the old one with exactly three fields written: the status,
  \<^verbatim>\<open>updated_at\<close>, and \<^verbatim>\<open>driver_id\<close>, the last one only when a non-empty driver id was
  passed. All other fields, also those of an extension of the record, are as before.
\<close>

theorem updateOrderStatus_patches_cache:
  "fst (updateOrderStatus srv_now now orderId status driverId cx rm) = Inr () \<longrightarrow>
     requests (snd (snd (updateOrderStatus srv_now now orderId status driverId cx rm)))
       = requests rm @ [(Update, ''orders'')]
     \<and> length (orders (fst (snd (updateOrderStatus srv_now now orderId status driverId cx rm))))
       = length (orders cx)
     \<and> (\<forall>i < length (orders cx).
          (o_id (orders cx ! i) \<noteq> orderId \<longrightarrow>
             orders (fst (snd (updateOrderStatus srv_now now orderId status driverId cx rm))) ! i
               = orders cx ! i)
          \<and> (o_id (orders cx ! i) = orderId \<longrightarrow>
             orders (fst (snd (updateOrderStatus srv_now now orderId status driverId cx rm))) ! i
               = (orders cx ! i)
                   \<lparr>o_status := status,
                    o_updated_at := now,
                    o_driver_id := (case driverId of
                                     None \<Rightarrow> o_driver_id (orders cx ! i)
                                   | Some d \<Rightarrow> if d = [] then o_driver_id (orders cx ! i)
                                              else Some d)\<rparr>))"
proof
  let ?out = "updateOrderStatus srv_now now orderId status driverId cx rm"
  assume "fst ?out = Inr ()"
  then have ok: "refuse rm (Update, ''orders'') = None"
    by (rule updateOrderStatus_Inr)
  show "requests (snd (snd ?out)) = requests rm @ [(Update, ''orders'')]
     \<and> length (orders (fst (snd ?out))) = length (orders cx)
     \<and> (\<forall>i < length (orders cx).
          (o_id (orders cx ! i) \<noteq> orderId \<longrightarrow> orders (fst (snd ?out)) ! i = orders cx ! i)
          \<and> (o_id (orders cx ! i) = orderId \<longrightarrow>
             orders (fst (snd ?out)) ! i
               = (orders cx ! i)
                   \<lparr>o_status := status,
                    o_updated_at := now,
                    o_driver_id := (case driverId of
                                     None \<Rightarrow> o_driver_id (orders cx ! i)
                                   | Some d \<Rightarrow> if d = [] then o_driver_id (orders cx ! i)
                                              else Some d)\<rparr>))"
    by (simp add: updateOrderStatus_accepted [OF ok] updateOrderStatus_service_requests
        patch_order_def falsy_str_def split: option.split)
qed

text \<open>The cached order is confirmed without a driver id: its driver stays \<open>d1\<close>.\<close>

theorem updateOrderStatus_patches_cache_witness:
  "fst (updateOrderStatus 7 8 ''o1'' Confirmed None sample_cache sample_store) = Inr ()
   \<and> requests (snd (snd (updateOrderStatus 7 8 ''o1'' Confirmed None sample_cache sample_store)))
       = [(Update, ''orders'')]
   \<and> orders (fst (snd (updateOrderStatus 7 8 ''o1'' Confirmed None sample_cache sample_store)))
       = [sample_order\<lparr>o_status := Confirmed, o_updated_at := 8\<rparr>]"
  using updateOrderStatus_patches_cache [of 7 8 "''o1''" Confirmed None sample_cache sample_store]
  by (simp add: sample_store_def sample_order_def sample_cache_def updateOrderStatus_def
      orderService_updateOrderStatus_def send_def patch_order_def falsy_str_def)

subsection \<open>Creating an order\<close>

lemma orders_insert_row_Some:
  "orders_insert_row new_id srv_now row = Some stored \<Longrightarrow>
   o_id stored = new_id \<and> o_status stored = oi_status row \<and> o_driver_id stored = None
   \<and> o_customer_id stored = oi_customer_id row \<and> o_restaurant_id stored = oi_restaurant_id row
   \<and> oi_items row = Some (o_items stored)
   \<and> oi_subtotal row = Some (o_subtotal stored)
   \<and> oi_delivery_fee row = Some (o_delivery_fee stored)
   \<and> oi_total row = Some (o_total stored)"
  by (auto simp: orders_insert_row_def split: option.splits)

lemma orderService_createOrder_Inr:
  "orderService_createOrder pf new_id srv_now d rm = (Inr stored, rm1) \<Longrightarrow>
   refuse rm (Insert, ''orders'') = None
   \<and> orders_insert_row new_id srv_now (createOrder_row pf d) = Some stored
   \<and> t_orders rm1 = t_orders rm @ [stored]"
  by (auto simp: orderService_createOrder_def Let_def send_def split: option.splits)

lemma getCustomerOrders_tables:
  "t_orders (snd (getCustomerOrders usr cx rm)) = t_orders rm"
  by (auto simp: getCustomerOrders_def orderService_getMyOrders_def Let_def send_def
      split: option.splits)

lemma createOrder_Inr:
  assumes "fst (createOrder pf new_id srv_now usr od cx rm) = Inr oid"
  shows "\<exists>u stored. usr = Some u \<and> order_errors od = []
           \<and> refuse rm (Insert, ''orders'') = None
           \<and> orders_insert_row new_id srv_now
                (createOrder_row pf (order_data.extend od \<lparr>od_customer_id = u_id u\<rparr>)) = Some stored
           \<and> oid = new_id
           \<and> t_orders (snd (snd (createOrder pf new_id srv_now usr od cx rm))) = t_orders rm @ [stored]"
proof (cases usr)
  case None
  with assms show ?thesis by (simp add: createOrder_def)
next
  case (Some u)
  show ?thesis
  proof (cases "order_errors od")
    case (Cons e es)
    with assms Some show ?thesis by (simp add: createOrder_def Let_def)
  next
    case Nil
    obtain res rm1 where svc:
      "orderService_createOrder pf new_id srv_now (order_data.extend od \<lparr>od_customer_id = u_id u\<rparr>) rm = (res, rm1)"
      by (cases "orderService_createOrder pf new_id srv_now (order_data.extend od \<lparr>od_customer_id = u_id u\<rparr>) rm")
    show ?thesis
    proof (cases res)
      case (Inl e)
      with assms Some Nil svc show ?thesis by (simp add: createOrder_def Let_def)
    next
      case (Inr stored)
      note facts = orderService_createOrder_Inr [OF svc [unfolded Inr]]
      have tabs: "t_orders (snd (snd (createOrder pf new_id srv_now usr od cx rm))) = t_orders rm1"
        using Some Nil svc Inr getCustomerOrders_tables [of "Some u" "cx\<lparr>loading := True, error := None\<rparr>" rm1]
        by (simp add: createOrder_def Let_def split_beta)
      have "oid = o_id stored"
        using assms Some Nil svc Inr by (simp add: createOrder_def Let_def split_beta)
      with facts tabs Some Nil orders_insert_row_Some [of new_id srv_now _ stored]
      show ?thesis by auto
    qed
  qed
qed

lemma order_errors_Nil:
  "order_errors od = [] \<Longrightarrow>
   \<exists>its addr phone. od_items od = Some its \<and> od_delivery_address od = Some addr
      \<and> od_customer_phone od = Some phone"
  by (auto simp: order_errors_def split: if_splits option.splits)

lemma orderService_createOrder_accepted:
  assumes "refuse rm (Insert, ''orders'') = None"
    and "orders_insert_row new_id srv_now (createOrder_row pf d) = Some stored"
  shows "orderService_createOrder pf new_id srv_now d rm =
           (Inr stored, (send (Insert, ''orders'') rm)\<lparr>t_orders := t_orders rm @ [stored]\<rparr>)"
  using assms by (simp add: orderService_createOrder_def Let_def send_def)

lemma createOrder_succeeds:
  assumes valid: "order_errors od = []"
    and ok: "refuse rm (Insert, ''orders'') = None"
    and st: "parseFloat pf (od_subtotal od) = Some st"
    and fee: "parseFloat pf (od_delivery_fee od) = Some fee"
    and tot: "parseFloat pf (od_total od) = Some tot"
  shows "fst (createOrder pf new_id srv_now (Some u) od cx rm) = Inr new_id"
proof -
  let ?d = "order_data.extend od \<lparr>od_customer_id = u_id u\<rparr>"
  from order_errors_Nil [OF valid] obtain its addr phone where
    f: "od_items od = Some its" "od_delivery_address od = Some addr" "od_customer_phone od = Some phone"
    by blast
  have "\<exists>stored. orders_insert_row new_id srv_now (createOrder_row pf ?d) = Some stored \<and> o_id stored = new_id"
    using f st fee tot
    by (simp add: orders_insert_row_def createOrder_row_def order_data.defs)
  then obtain stored where
    ins: "orders_insert_row new_id srv_now (createOrder_row pf ?d) = Some stored" and sid: "o_id stored = new_id"
    by blast
  show ?thesis
    using valid sid
    by (simp add: createOrder_def Let_def split_beta orderService_createOrder_accepted [OF ok ins])
qed

lemma scenario_valid: "order_errors scenario_order = []"
  by (simp add: order_errors_def scenario_order_def falsy_str_def trim_def is_space_def sample_items_def)

text \<open>
  C4. Whenever the container's \<open>createOrder\<close> returns an order id, the store holds
  one more order, with that id and status \<^verbatim>\<open>pending\<close>, whose items are the supplied
  items and whose subtotal, delivery fee and total are the supplied values as
  \<^verbatim>\<open>parseFloat\<close> reads them. In particular, for the scenario order (2 at 5.00 and 1 at
  3.00, fee 2.00, handed over with subtotal 13.00 and total 15.00) and a store that takes
  the insert, the call succeeds and the stored order is pending with subtotal 13 and
  total 15.
\<close>

theorem createOrder_stores_supplied_values:
  "(fst (createOrder pf new_id srv_now usr od cx rm) = Inr oid \<longrightarrow>
      (\<exists>stored.
          t_orders (snd (snd (createOrder pf new_id srv_now usr od cx rm))) = t_orders rm @ [stored]
          \<and> o_id stored = oid
          \<and> o_status stored = Pending
          \<and> od_items od = Some (o_items stored)
          \<and> parseFloat pf (od_subtotal od) = Some (o_subtotal stored)
          \<and> parseFloat pf (od_delivery_fee od) = Some (o_delivery_fee stored)
          \<and> parseFloat pf (od_total od) = Some (o_total stored)))
   \<and> (refuse rm (Insert, ''orders'') = None \<longrightarrow>
        fst (createOrder pf new_id srv_now (Some u) scenario_order cx rm) = Inr new_id
        \<and> (\<exists>stored.
              t_orders (snd (snd (createOrder pf new_id srv_now (Some u) scenario_order cx rm)))
                = t_orders rm @ [stored]
              \<and> o_status stored = Pending \<and> o_items stored = sample_items
              \<and> o_subtotal stored = 13 \<and> o_delivery_fee stored = 2 \<and> o_total stored = 15))"
proof (intro conjI impI)
  assume "fst (createOrder pf new_id srv_now usr od cx rm) = Inr oid"
  from createOrder_Inr [OF this] obtain w :: user and stored where
    ins: "orders_insert_row new_id srv_now
            (createOrder_row pf (order_data.extend od \<lparr>od_customer_id = u_id w\<rparr>)) = Some stored"
    and oid: "oid = new_id"
    and tabs: "t_orders (snd (snd (createOrder pf new_id srv_now usr od cx rm))) = t_orders rm @ [stored]"
    by blast
  from orders_insert_row_Some [OF ins] oid tabs
  show "\<exists>stored.
          t_orders (snd (snd (createOrder pf new_id srv_now usr od cx rm))) = t_orders rm @ [stored]
          \<and> o_id stored = oid
          \<and> o_status stored = Pending
          \<and> od_items od = Some (o_items stored)
          \<and> parseFloat pf (od_subtotal od) = Some (o_subtotal stored)
          \<and> parseFloat pf (od_delivery_fee od) = Some (o_delivery_fee stored)
          \<and> parseFloat pf (od_total od) = Some (o_total stored)"
    by (simp add: createOrder_row_def order_data.defs)
next
  assume ok: "refuse rm (Insert, ''orders'') = None"
  have parsed: "parseFloat pf (od_subtotal scenario_order) = Some 13"
    "parseFloat pf (od_delivery_fee scenario_order) = Some 2"
    "parseFloat pf (od_total scenario_order) = Some 15"
    by (simp_all add: scenario_order_def parseFloat_def)
  show res: "fst (createOrder pf new_id srv_now (Some u) scenario_order cx rm) = Inr new_id"
    by (rule createOrder_succeeds [OF scenario_valid ok parsed])
  from createOrder_Inr [OF res] obtain w :: user and stored where
    ins: "orders_insert_row new_id srv_now
            (createOrder_row pf (order_data.extend scenario_order \<lparr>od_customer_id = u_id w\<rparr>))
          = Some stored"
    and tabs: "t_orders (snd (snd (createOrder pf new_id srv_now (Some u) scenario_order cx rm)))
                 = t_orders rm @ [stored]"
    by blast
  from orders_insert_row_Some [OF ins] tabs
  show "\<exists>stored.
          t_orders (snd (snd (createOrder pf new_id srv_now (Some u) scenario_order cx rm)))
            = t_orders rm @ [stored]
          \<and> o_status stored = Pending \<and> o_items stored = sample_items
          \<and> o_subtotal stored = 13 \<and> o_delivery_fee stored = 2 \<and> o_total stored = 15"
    by (simp add: createOrder_row_def order_data.defs scenario_order_def parseFloat_def)
qed

text \<open>The scenario order of customer \<open>c1\<close>, created in the sample store.\<close>

theorem createOrder_stores_supplied_values_witness:
  "refuse sample_store (Insert, ''orders'') = None
   \<and> fst (createOrder Map.empty ''o2'' 9 (Some sample_customer) scenario_order empty_cache
            sample_store) = Inr ''o2''
   \<and> map (\<lambda>row. (o_id row, o_status row, o_subtotal row, o_delivery_fee row, o_total row))
        (t_orders (snd (snd (createOrder Map.empty ''o2'' 9 (Some sample_customer) scenario_order
                              empty_cache sample_store))))
      = [(''o1'', Delivered, 13, 2, 15), (''o2'', Pending, 13, 2, 15)]"
  using createOrder_stores_supplied_values
    [of Map.empty "''o2''" 9 "Some sample_customer" scenario_order empty_cache sample_store
        "''o2''" sample_customer]
  by (auto simp: sample_store_def sample_order_def)

text \<open>
  C5, as stated, fails: an order whose total (99) differs from subtotal + delivery fee
  (13 + 2) is created, stored with that total, and the container's error flag stays
  empty.
\<close>

theorem createOrder_total_not_checked_counterexample:
  "fst (createOrder Map.empty ''o2'' 9 (Some sample_customer) mismatched_order empty_cache
          sample_store) = Inr ''o2''
   \<and> error (fst (snd (createOrder Map.empty ''o2'' 9 (Some sample_customer) mismatched_order
                        empty_cache sample_store))) = None
   \<and> map (\<lambda>row. (o_id row, o_subtotal row, o_delivery_fee row, o_total row))
        (t_orders (snd (snd (createOrder Map.empty ''o2'' 9 (Some sample_customer)
                              mismatched_order empty_cache sample_store))))
      = [(''o1'', 13, 2, 15), (''o2'', 13, 2, 99)]
   \<and> (99 :: rat) \<noteq> 13 + 2"
  by (simp add: createOrder_def order_errors_def mismatched_order_def scenario_order_def
      sample_customer_def empty_cache_def sample_store_def sample_order_def sample_items_def
      falsy_str_def trim_def is_space_def orderService_createOrder_def createOrder_row_def
      orders_insert_row_def parseFloat_def send_def getCustomerOrders_def
      orderService_getMyOrders_def embed_restaurant_def message_or_def
      order_data.defs order.defs Let_def)

text \<open>
  C5, amended. The creation path does not compare the three amounts. Every order that
  passes the field-presence checks, whose amounts parse and whose insert the store takes,
  is created, whatever the relation between its total and its subtotal and delivery fee;
  the amounts are stored as supplied, so the stored total is the sum of the stored
  subtotal and delivery fee exactly when the supplied total is the sum of the supplied
  ones.
\<close>

theorem createOrder_stores_total_as_supplied:
  "order_errors od = [] \<and> refuse rm (Insert, ''orders'') = None
   \<and> parseFloat pf (od_subtotal od) = Some st
   \<and> parseFloat pf (od_delivery_fee od) = Some fee
   \<and> parseFloat pf (od_total od) = Some tot \<longrightarrow>
     fst (createOrder pf new_id srv_now (Some u) od cx rm) = Inr new_id
     \<and> (\<exists>stored.
           t_orders (snd (snd (createOrder pf new_id srv_now (Some u) od cx rm)))
             = t_orders rm @ [stored]
           \<and> o_subtotal stored = st \<and> o_delivery_fee stored = fee \<and> o_total stored = tot
           \<and> (o_total stored = o_subtotal stored + o_delivery_fee stored \<longleftrightarrow> tot = st + fee))"
proof (intro impI, elim conjE)
  assume valid: "order_errors od = []" and ok: "refuse rm (Insert, ''orders'') = None"
    and st: "parseFloat pf (od_subtotal od) = Some st"
    and fee: "parseFloat pf (od_delivery_fee od) = Some fee"
    and tot: "parseFloat pf (od_total od) = Some tot"
  have res: "fst (createOrder pf new_id srv_now (Some u) od cx rm) = Inr new_id"
    by (rule createOrder_succeeds [OF valid ok st fee tot])
  from createOrder_Inr [OF res] obtain w :: user and stored where
    ins: "orders_insert_row new_id srv_now
            (createOrder_row pf (order_data.extend od \<lparr>od_customer_id = u_id w\<rparr>)) = Some stored"
    and tabs: "t_orders (snd (snd (createOrder pf new_id srv_now (Some u) od cx rm)))
                 = t_orders rm @ [stored]"
    by blast
  from orders_insert_row_Some [OF ins] st fee tot
  have "o_subtotal stored = st \<and> o_delivery_fee stored = fee \<and> o_total stored = tot"
    by (simp add: createOrder_row_def order_data.defs)
  with res tabs
  show "fst (createOrder pf new_id srv_now (Some u) od cx rm) = Inr new_id
     \<and> (\<exists>stored.
           t_orders (snd (snd (createOrder pf new_id srv_now (Some u) od cx rm)))
             = t_orders rm @ [stored]
           \<and> o_subtotal stored = st \<and> o_delivery_fee stored = fee \<and> o_total stored = tot
           \<and> (o_total stored = o_subtotal stored + o_delivery_fee stored \<longleftrightarrow> tot = st + fee))"
    by simp
qed

text \<open>The mismatched order goes through with its total of 99.\<close>

theorem createOrder_stores_total_as_supplied_witness:
  "order_errors mismatched_order = [] \<and> refuse sample_store (Insert, ''orders'') = None
   \<and> parseFloat Map.empty (od_subtotal mismatched_order) = Some 13
   \<and> parseFloat Map.empty (od_delivery_fee mismatched_order) = Some 2
   \<and> parseFloat Map.empty (od_total mismatched_order) = Some 99
   \<and> fst (createOrder Map.empty ''o2'' 9 (Some sample_customer) mismatched_order empty_cache
            sample_store) = Inr ''o2''
   \<and> map o_total
        (t_orders (snd (snd (createOrder Map.empty ''o2'' 9 (Some sample_customer)
                              mismatched_order empty_cache sample_store))))
      = [15, 99]"
  using createOrder_stores_total_as_supplied
    [of mismatched_order sample_store Map.empty 13 2 99 "''o2''" 9 sample_customer empty_cache]
  by (auto simp: sample_store_def sample_order_def mismatched_order_def scenario_order_def
      parseFloat_def order_errors_def falsy_str_def trim_def is_space_def sample_items_def)

subsection \<open>Rating aggregation\<close>









lemma floor_rat_numeral [simp]:
  "\<lfloor>numeral a / numeral b :: rat\<rfloor> = numeral a div numeral b"
  using floor_divide_of_int_eq [of "numeral a" "numeral b", where ?'a = rat] by simp




















subsection \<open>Login failures\<close>

lemma filter_unique:
  "distinct (map f xs) \<Longrightarrow> r \<in> set xs \<Longrightarrow> filter (\<lambda>x. f x = f r) xs = [r]"
proof (induction xs)
  case Nil
  then show ?case by simp
next
  case (Cons x xs)
  show ?case
  proof (cases "x = r")
    case True
    with Cons.prems have "f r \<notin> f ` set xs" by simp
    then have "\<forall>x \<in> set xs. f x \<noteq> f r"
      by (metis imageI)
    then have "filter (\<lambda>x. f x = f r) xs = []"
      by (simp add: filter_empty_conv)
    with True show ?thesis by simp
  next
    case False
    with Cons.prems have "r \<in> set xs" and "f x \<noteq> f r" by auto
    with Cons show ?thesis by simp
  qed
qed

lemma login_unknown:
  assumes "refuse rm (Select, ''users'') = None"
    and "\<forall>r \<in> set (t_users rm). ur_email r \<noteq> email"
  shows "fst (authService_login compare email password rm) = Inl ''Invalid credentials''"
proof -
  from assms(2) have "filter (\<lambda>r. ur_email r = email) (t_users rm) = []"
    by (auto simp: filter_empty_conv)
  with assms(1) show ?thesis
    by (simp add: authService_login_def maybeSingle_def Let_def)
qed

lemma login_wrong_password:
  assumes "refuse rm (Select, ''users'') = None"
    and "distinct (map ur_email (t_users rm))"
    and "r \<in> set (t_users rm)" and "ur_email r = email"
    and "\<not> compare password (ur_password_hash r)"
  shows "fst (authService_login compare email password rm) = Inl ''Invalid credentials''"
proof -
  from filter_unique [OF assms(2,3)] assms(4)
  have "filter (\<lambda>x. ur_email x = email) (t_users rm) = [r]" by simp
  with assms(1,5) show ?thesis
    by (simp add: authService_login_def maybeSingle_def Let_def)
qed

text \<open>
  C10. When the store answers the lookup and emails are unique (the \<^verbatim>\<open>UNIQUE\<close> constraint
  on \<^verbatim>\<open>users.email\<close>), a login with an email that no user has and a login with a
  registered email whose password does not verify both throw the same error, with
  message \<^verbatim>\<open>Invalid credentials\<close>, and leave the store in the same state (one lookup
  recorded): the thrown error does not tell the two cases apart.
\<close>

theorem login_failures_indistinguishable:
  "refuse rm (Select, ''users'') = None \<and> distinct (map ur_email (t_users rm)) \<longrightarrow>
     ((\<forall>r \<in> set (t_users rm). ur_email r \<noteq> email) \<longrightarrow>
        fst (authService_login compare email password rm) = Inl ''Invalid credentials'')
     \<and> (\<forall>r \<in> set (t_users rm).
           ur_email r = email' \<and> \<not> compare password' (ur_password_hash r) \<longrightarrow>
           fst (authService_login compare email' password' rm) = Inl ''Invalid credentials'')
     \<and> snd (authService_login compare email password rm) = send (Select, ''users'') rm
     \<and> snd (authService_login compare email' password' rm) = send (Select, ''users'') rm"
proof (intro impI)
  assume "refuse rm (Select, ''users'') = None \<and> distinct (map ur_email (t_users rm))"
  then have ok: "refuse rm (Select, ''users'') = None"
    and uniq: "distinct (map ur_email (t_users rm))"
    by simp_all
  have unknown: "(\<forall>r \<in> set (t_users rm). ur_email r \<noteq> email) \<longrightarrow>
        fst (authService_login compare email password rm) = Inl ''Invalid credentials''"
    using login_unknown [OF ok] by blast
  have wrong: "\<forall>r \<in> set (t_users rm).
           ur_email r = email' \<and> \<not> compare password' (ur_password_hash r) \<longrightarrow>
           fst (authService_login compare email' password' rm) = Inl ''Invalid credentials''"
    using login_wrong_password [OF ok uniq] by blast
  have after: "snd (authService_login compare e p rm) = send (Select, ''users'') rm" for e p
    by (simp add: authService_login_def Let_def split: option.split sum.split)
  from unknown wrong after [of email password] after [of email' password']
  show "((\<forall>r \<in> set (t_users rm). ur_email r \<noteq> email) \<longrightarrow>
        fst (authService_login compare email password rm) = Inl ''Invalid credentials'')
     \<and> (\<forall>r \<in> set (t_users rm).
           ur_email r = email' \<and> \<not> compare password' (ur_password_hash r) \<longrightarrow>
           fst (authService_login compare email' password' rm) = Inl ''Invalid credentials'')
     \<and> snd (authService_login compare email password rm) = send (Select, ''users'') rm
     \<and> snd (authService_login compare email' password' rm) = send (Select, ''users'') rm"
    by blast
qed

text \<open>An unknown email and a wrong password for a registered one.\<close>

theorem login_failures_indistinguishable_witness:
  "refuse rated_store (Select, ''users'') = None
   \<and> distinct (map ur_email (t_users rated_store))
   \<and> map ur_email (t_users rated_store) = [''ada@example.org'']
   \<and> \<not> sample_compare ''guess'' (ur_password_hash sample_user_row)
   \<and> fst (authService_login sample_compare ''bob@example.org'' ''secret'' rated_store)
      = Inl ''Invalid credentials''
   \<and> fst (authService_login sample_compare ''ada@example.org'' ''guess'' rated_store)
      = Inl ''Invalid credentials''
   \<and> fst (authService_login sample_compare ''ada@example.org'' ''secret'' rated_store)
      = Inr (userResponse sample_user_row)"
  using login_failures_indistinguishable [of rated_store "''bob@example.org''" sample_compare "''secret''"
               "''ada@example.org''" "''guess''"]
  by (simp add: rated_store_def sample_store_def sample_user_row_def sample_compare_def
      authService_login_def maybeSingle_def send_def Let_def)

subsection \<open>Validation before the remote write\<close>

lemma required_check_hits:
  "\<exists>field \<in> set fs. missing (d field) \<Longrightarrow>
   \<exists>msg. required_check missing d fs = Some msg \<and> msg \<in> set (map required_message fs)"
  by (induction fs) auto

lemma required_check_message:
  "required_check missing d fs = Some msg \<Longrightarrow> msg \<in> set (map required_message fs)"
  by (induction fs) (auto split: if_splits)

lemma empty_field_restaurant_missing: "empty_field v \<Longrightarrow> restaurant_missing v"
  by (auto simp: empty_field_def missing_field_def restaurant_missing_def falsy_def)

lemma missing_field_menu_missing: "missing_field v \<Longrightarrow> menu_missing v"
  by (auto simp: missing_field_def menu_missing_def falsy_def)

lemma negative_not_a_fee: "negative_amount ns v \<Longrightarrow> not_a_fee ns v"
  by (auto simp: negative_amount_def not_a_fee_def split: option.splits)

lemma non_positive_not_a_price: "non_positive_amount ns v \<Longrightarrow> not_a_price ns v"
  by (auto simp: non_positive_amount_def not_a_price_def split: option.splits)

lemma restaurant_validation_message:
  "restaurant_validation ns d = Some msg \<Longrightarrow> msg \<in> set restaurant_validation_messages"
  by (auto simp: restaurant_validation_def restaurant_validation_messages_def
      split: option.splits if_splits dest: required_check_message)

lemma menu_validation_message:
  "menu_validation ns d = Some msg \<Longrightarrow> msg \<in> set menu_validation_messages"
  by (auto simp: menu_validation_def menu_validation_messages_def
      split: option.splits if_splits dest: required_check_message)

lemma restaurant_validation_stops:
  assumes "(\<exists>field \<in> set restaurant_requiredFields. empty_field (d field))
           \<or> negative_amount ns (d ''delivery_fee'') \<or> negative_amount ns (d ''min_order'')"
  shows "\<exists>msg. restaurant_validation ns d = Some msg"
proof (cases "required_check restaurant_missing d restaurant_requiredFields")
  case (Some msg)
  then show ?thesis by (simp add: restaurant_validation_def)
next
  case None
  have "\<not> (\<exists>field \<in> set restaurant_requiredFields. empty_field (d field))"
  proof
    assume "\<exists>field \<in> set restaurant_requiredFields. empty_field (d field)"
    then have "\<exists>field \<in> set restaurant_requiredFields. restaurant_missing (d field)"
      using empty_field_restaurant_missing by blast
    from required_check_hits [OF this] None show False by simp
  qed
  with assms have "not_a_fee ns (d ''delivery_fee'') \<or> not_a_fee ns (d ''min_order'')"
    using negative_not_a_fee by blast
  with None show ?thesis by (auto simp: restaurant_validation_def)
qed

lemma menu_validation_stops:
  assumes "(\<exists>field \<in> set menu_requiredFields. missing_field (d field))
           \<or> non_positive_amount ns (d ''price'')"
  shows "\<exists>msg. menu_validation ns d = Some msg"
proof (cases "required_check menu_missing d menu_requiredFields")
  case (Some msg)
  then show ?thesis by (simp add: menu_validation_def)
next
  case None
  have "\<not> (\<exists>field \<in> set menu_requiredFields. missing_field (d field))"
  proof
    assume "\<exists>field \<in> set menu_requiredFields. missing_field (d field)"
    then have "\<exists>field \<in> set menu_requiredFields. menu_missing (d field)"
      using missing_field_menu_missing by blast
    from required_check_hits [OF this] None show False by simp
  qed
  with assms have "not_a_price ns (d ''price'')"
    using non_positive_not_a_price by blast
  with None show ?thesis by (simp add: menu_validation_def)
qed

lemma validation_message_nonempty:
  "msg \<in> set restaurant_validation_messages \<or> msg \<in> set menu_validation_messages \<Longrightarrow> msg \<noteq> []"
  by (auto simp: restaurant_validation_messages_def menu_validation_messages_def
      required_message_def)

text \<open>
  C6. For a logged-in user, a restaurant form with an empty required field, a negative
  delivery fee or a negative minimum order makes \<open>createRestaurant\<close> throw one of its
  validation messages and leaves the store exactly as it was: no request reached it. A
  menu form with a missing required field or a price that is not positive does the same
  to \<open>addMenuItem\<close>.
\<close>

theorem validation_fails_before_remote_write:
  "((\<exists>field \<in> set restaurant_requiredFields. empty_field (restaurantData field))
    \<or> negative_amount ns (restaurantData ''delivery_fee'')
    \<or> negative_amount ns (restaurantData ''min_order'') \<longrightarrow>
      (\<exists>msg. fst (createRestaurant pf ns new_id srv_now (Some u) restaurantData rcx rm) = Inl msg
             \<and> msg \<in> set restaurant_validation_messages)
      \<and> snd (snd (createRestaurant pf ns new_id srv_now (Some u) restaurantData rcx rm)) = rm)
   \<and> ((\<exists>field \<in> set menu_requiredFields. missing_field (itemData field))
       \<or> non_positive_amount ns (itemData ''price'') \<longrightarrow>
      (\<exists>msg. fst (addMenuItem pf ns new_id srv_now itemData mcx rm) = Inl msg
             \<and> msg \<in> set menu_validation_messages)
      \<and> snd (snd (addMenuItem pf ns new_id srv_now itemData mcx rm)) = rm)"
proof (intro conjI impI)
  assume "(\<exists>field \<in> set restaurant_requiredFields. empty_field (restaurantData field))
    \<or> negative_amount ns (restaurantData ''delivery_fee'')
    \<or> negative_amount ns (restaurantData ''min_order'')"
  from restaurant_validation_stops [OF this] obtain msg where
    v: "restaurant_validation ns restaurantData = Some msg" by blast
  from restaurant_validation_message [OF v] have m: "msg \<in> set restaurant_validation_messages" .
  then have ne: "msg \<noteq> []" by (simp add: validation_message_nonempty)
  from v m ne
  show "\<exists>msg. fst (createRestaurant pf ns new_id srv_now (Some u) restaurantData rcx rm) = Inl msg
             \<and> msg \<in> set restaurant_validation_messages"
    by (simp add: createRestaurant_def message_or_def Let_def)
  from v show "snd (snd (createRestaurant pf ns new_id srv_now (Some u) restaurantData rcx rm)) = rm"
    by (simp add: createRestaurant_def Let_def)
next
  assume "(\<exists>field \<in> set menu_requiredFields. missing_field (itemData field))
       \<or> non_positive_amount ns (itemData ''price'')"
  from menu_validation_stops [OF this] obtain msg where
    v: "menu_validation ns itemData = Some msg" by blast
  from menu_validation_message [OF v] have m: "msg \<in> set menu_validation_messages" .
  then have ne: "msg \<noteq> []" by (simp add: validation_message_nonempty)
  from v m ne
  show "\<exists>msg. fst (addMenuItem pf ns new_id srv_now itemData mcx rm) = Inl msg
             \<and> msg \<in> set menu_validation_messages"
    by (simp add: addMenuItem_def message_or_def Let_def)
  from v show "snd (snd (addMenuItem pf ns new_id srv_now itemData mcx rm)) = rm"
    by (simp add: addMenuItem_def Let_def)
qed

text \<open>A delivery fee of -1 and a price of 0.\<close>

theorem validation_fails_before_remote_write_witness:
  "negative_amount Map.empty (bad_restaurant_form ''delivery_fee'')
   \<and> fst (createRestaurant Map.empty Map.empty ''r9'' 9 (Some sample_owner) bad_restaurant_form
            empty_restaurant_ctx sample_store) = Inl ''Valid delivery fee is required''
   \<and> snd (snd (createRestaurant Map.empty Map.empty ''r9'' 9 (Some sample_owner)
                 bad_restaurant_form empty_restaurant_ctx sample_store)) = sample_store
   \<and> non_positive_amount Map.empty (bad_item_form ''price'')
   \<and> fst (addMenuItem Map.empty Map.empty ''m9'' 9 bad_item_form empty_menu_ctx sample_store)
      = Inl ''price is required''
   \<and> snd (snd (addMenuItem Map.empty Map.empty ''m9'' 9 bad_item_form empty_menu_ctx
                 sample_store)) = sample_store"
  using validation_fails_before_remote_write [of bad_restaurant_form Map.empty Map.empty "''r9''" 9 sample_owner
               empty_restaurant_ctx sample_store bad_item_form empty_menu_ctx]
  by (simp add: bad_restaurant_form_def bad_item_form_def negative_amount_def
      non_positive_amount_def Number_def createRestaurant_def addMenuItem_def
      restaurant_validation_def menu_validation_def restaurant_requiredFields_def
      menu_requiredFields_def restaurant_missing_def menu_missing_def falsy_def
      not_a_fee_def not_a_price_def required_message_def message_or_def trim_def
      is_space_def Let_def)

subsection \<open>Who may insert a review\<close>

text \<open>
  C8, as stated, fails in the direction "if": customer \<open>c1\<close> reviews its own delivered
  order \<open>o1\<close> with rating 4, so all four conditions hold, but the review names a
  restaurant that does not exist and the foreign key on \<^verbatim>\<open>restaurant_id\<close> rejects it.
\<close>

theorem review_insert_four_conditions_counterexample:
  "claimed_review_conditions (Some ''c1'') rated_store dangling_review
   \<and> \<not> reviews_insert_permitted (Some ''c1'') rated_store dangling_review"
  by (simp add: claimed_review_conditions_def reviews_insert_permitted_def
      reviews_insert_policy_def reviews_constraints_def rated_store_def sample_store_def
      sample_order_def sample_restaurant_def sample_user_row_def dangling_review_def
      good_review_def)

text \<open>
  C8, amended. An insert into \<^verbatim>\<open>reviews\<close> is permitted if and only if the four conditions
  hold (the actor is the review's customer, the referenced order belongs to that
  customer, the order is delivered, the rating is an integer from 1 to 5) and, in
  addition, the foreign keys of the row are satisfied: its \<^verbatim>\<open>restaurant_id\<close> is \<^verbatim>\<open>NULL\<close> or
  the id of an existing restaurant, and its customer is a row of \<^verbatim>\<open>users\<close>. A request that
  violates one of these is rejected.
\<close>

theorem review_insert_permitted_iff:
  "reviews_insert_permitted uid rm row \<longleftrightarrow>
     claimed_review_conditions uid rm row
     \<and> (ri_restaurant_id row = None
        \<or> (\<exists>r \<in> set (t_restaurants rm). ri_restaurant_id row = Some (r_id r)))
     \<and> (\<exists>w \<in> set (t_users rm). ri_customer_id row = Some (ur_id w))"
proof (cases uid)
  case None
  then show ?thesis
    by (simp add: reviews_insert_permitted_def reviews_insert_policy_def
        claimed_review_conditions_def)
next
  case (Some actor)
  then show ?thesis
    by (cases "ri_restaurant_id row"; cases "ri_rating row"; cases "ri_order_id row";
        cases "ri_customer_id row")
       (auto simp: reviews_insert_permitted_def reviews_insert_policy_def
          claimed_review_conditions_def reviews_constraints_def list_ex_iff)
qed

text \<open>
  The review of restaurant \<open>r1\<close> is admitted; the same row sent by another actor, or
  with rating 6, is not.
\<close>

theorem review_insert_permitted_iff_witness:
  "reviews_insert_permitted (Some ''c1'') rated_store good_review
   \<and> claimed_review_conditions (Some ''c1'') rated_store good_review
   \<and> \<not> reviews_insert_permitted (Some ''c2'') rated_store good_review
   \<and> \<not> reviews_insert_permitted (Some ''c1'') rated_store (good_review\<lparr>ri_rating := Some 6\<rparr>)"
  using review_insert_permitted_iff [of "Some ''c1''" rated_store good_review]
  by (simp add: claimed_review_conditions_def reviews_insert_permitted_def
      reviews_insert_policy_def reviews_constraints_def rated_store_def sample_store_def
      sample_order_def sample_restaurant_def sample_user_row_def good_review_def)

end
